theory Spec2Isabelle
  imports Complex_Main "HOL-Library.Sublist"
begin

section \<open>Numbers, candles and directions\<close>

text \<open>
  The program is JavaScript. Its Numbers are IEEE doubles: finite ones are rationals, and
  \<open>+\<close>, \<open>-\<close>, \<open>*\<close> and \<open>/\<close> give the exact result rounded to the nearest
  double. A Number is a \<open>rat\<close> here, and every function that computes takes the rounding
  \<open>fl\<close> of an exact result as a parameter and applies it after each operation of the
  source, in the source's order. With \<open>fl = binary64\<close> this is the arithmetic of the
  program; with \<open>fl = exact\<close> no result is rounded. \<open>NaN\<close> and the infinities
  (a division by zero, a result of magnitude \<open>2 ^ 1024\<close> or more) are outside the model:
  where a statement depends on a quotient, the divisor is assumed non-zero. \<open>null\<close> is
  \<open>None\<close>. Timestamps (\<open>openTime\<close>) are integers, in milliseconds. Console output is
  left out: it changes no value.
\<close>

definition exact :: "rat \<Rightarrow> rat" where
  "exact x = x"

text \<open>The number of binary digits of a natural number.\<close>

fun bits :: "nat \<Rightarrow> nat" where
  "bits n = (if n = 0 then 0 else Suc (bits (n div 2)))"

declare bits.simps [simp del]

text \<open>The exponent of a non-zero rational: the \<open>e\<close> with
  \<open>2 ^ e \<le> \<bar>x\<bar> < 2 ^ (e + 1)\<close>.\<close>

definition exponent :: "rat \<Rightarrow> int" where
  "exponent x =
     (if 1 \<le> \<bar>x\<bar> then int (bits (nat \<lfloor>\<bar>x\<bar>\<rfloor>)) - 1
      else - int (bits (nat (\<lceil>1 / \<bar>x\<bar>\<rceil> - 1))))"

definition pow2 :: "int \<Rightarrow> rat" where
  "pow2 k = (if 0 \<le> k then 2 ^ nat k else 1 / 2 ^ nat (- k))"

text \<open>Rounding to the nearest integer, a tie going to the even one.\<close>

definition roundHalfEven :: "rat \<Rightarrow> int" where
  "roundHalfEven q =
     (let n = \<lfloor>q\<rfloor>; r = q - of_int n
      in if r < 1 / 2 then n else if 1 / 2 < r then n + 1
         else if even n then n else n + 1)"

text \<open>Rounding to the nearest double (IEEE 754 binary64, round to nearest, ties to even):
  a double is a multiple of its unit in the last place, which is \<open>2 ^ (e - 52)\<close> for the
  exponent \<open>e\<close> and never less than \<open>2 ^ - 1074\<close>.\<close>

definition binary64 :: "rat \<Rightarrow> rat" where
  "binary64 x =
     (if x = 0 then 0
      else (let ulp = pow2 (max (exponent x - 52) (- 1074))
            in of_int (roundHalfEven (x / ulp)) * ulp))"

datatype direction = LONG | SHORT

text \<open>A candle, as \<open>BinanceAPI.formatKlines\<close> builds it; only the fields the strategy and
  the simulator read are kept.\<close>

record candle =
  openTime :: int
  "open" :: rat
  high :: rat
  low :: rat
  close :: rat

text \<open>JavaScript truthiness of a Number that may be \<open>null\<close>: \<open>!x\<close> holds for \<open>null\<close>
  and for \<open>0\<close>. In arithmetic and comparisons \<open>null\<close> converts to \<open>0\<close>.\<close>

definition falsy :: "rat option \<Rightarrow> bool" where
  "falsy x = (case x of None \<Rightarrow> True | Some v \<Rightarrow> v = 0)"

definition toNumber :: "rat option \<Rightarrow> rat" where
  "toNumber x = (case x of None \<Rightarrow> 0 | Some v \<Rightarrow> v)"

section \<open>MathUtils\<close>

definition calculateStopLoss ::
  "(rat \<Rightarrow> rat) \<Rightarrow> rat \<Rightarrow> direction \<Rightarrow> rat \<Rightarrow> rat \<Rightarrow> rat" where
  "calculateStopLoss fl entryPrice dir lev riskPercent =
     (let priceRiskPercent = fl (riskPercent / lev);
          priceChange = fl (fl (priceRiskPercent / 100) * entryPrice)
      in if dir = LONG then fl (entryPrice - priceChange) else fl (entryPrice + priceChange))"

definition calculateTakeProfit ::
  "(rat \<Rightarrow> rat) \<Rightarrow> rat \<Rightarrow> direction \<Rightarrow> rat \<Rightarrow> rat \<Rightarrow> rat" where
  "calculateTakeProfit fl entryPrice dir lev profitPercent =
     (let priceProfitPercent = fl (profitPercent / lev);
          priceChange = fl (fl (priceProfitPercent / 100) * entryPrice)
      in if dir = LONG then fl (entryPrice + priceChange) else fl (entryPrice - priceChange))"

definition calculateTradeResultPercent ::
  "(rat \<Rightarrow> rat) \<Rightarrow> rat \<Rightarrow> rat \<Rightarrow> direction \<Rightarrow> rat" where
  "calculateTradeResultPercent fl entryP exitP dir =
     (if dir = LONG then fl (fl (fl (exitP - entryP) / entryP) * 100)
      else fl (fl (fl (entryP - exitP) / entryP) * 100))"

text \<open>\<open>Math.round\<close> rounds a Number to the nearest integer, a tie going up; the
  result is exact.\<close>

definition mathRound :: "rat \<Rightarrow> int" where
  "mathRound x = \<lfloor>x + 1 / 2\<rfloor>"

text \<open>\<open>MathUtils.round(number, decimals)\<close>: the product and the quotient are
  operations on Numbers; \<open>Math.pow(10, decimals)\<close> is the exact power for the
  \<open>decimals = 2\<close> of every call.\<close>

definition roundTo :: "(rat \<Rightarrow> rat) \<Rightarrow> rat \<Rightarrow> nat \<Rightarrow> rat" where
  "roundTo fl number decimals =
     fl (of_int (mathRound (fl (number * 10 ^ decimals))) / 10 ^ decimals)"

text \<open>\<open>MathUtils.max\<close> and \<open>MathUtils.min\<close> spread a list into \<open>Math.max\<close> and
  \<open>Math.min\<close>. On no numbers JavaScript answers \<open>-Infinity\<close> and \<open>Infinity\<close>, which
  \<open>rat\<close> does not have; the strategy only calls them on the candles of a day that has
  at least one candle (lemma \<open>groupCandlesByDay_nonempty\<close> below).\<close>

fun mathMax :: "rat list \<Rightarrow> rat" where
  "mathMax [] = 0"
| "mathMax (x # xs) = fold max xs x"

fun mathMin :: "rat list \<Rightarrow> rat" where
  "mathMin [] = 0"
| "mathMin (x # xs) = fold min xs x"

section \<open>DateUtils\<close>

text \<open>\<open>moment(endTime).diff(moment(startTime), 'hours')\<close>: the difference in
  milliseconds divided by 3600000 and truncated toward zero.\<close>

definition getHoursDifference :: "int \<Rightarrow> int \<Rightarrow> int" where
  "getHoursDifference startTime endTime =
     (let d = endTime - startTime
      in if d < 0 then - ((- d) div 3600000) else d div 3600000)"

definition shouldCloseByTime :: "int \<Rightarrow> int \<Rightarrow> rat \<Rightarrow> bool" where
  "shouldCloseByTime entryT currentTime maxH =
     (let hoursPassed = getHoursDifference entryT currentTime
      in of_int hoursPassed \<ge> maxH)"

section \<open>BreakoutStrategy\<close>

text \<open>
  \<open>DateUtils.getDateOnly\<close> formats a timestamp as a \<open>YYYY-MM-DD\<close> string with the
  moment library, which is not part of the repository. It is a parameter \<open>getDateOnly\<close> of
  every function that uses it; the type \<open>'d\<close> of dates is any linear order, the order
  being the one \<open>Array.prototype.sort\<close> puts on the date strings.
\<close>

datatype breakout_type = BREAKOUT_HIGH | BREAKOUT_LOW

text \<open>The object \<open>detectBreakout\<close> returns, its properties \<open>type\<close>,
  \<open>direction\<close>, \<open>reason\<close> and \<open>entryPrice\<close> prefixed with \<open>b\<close>. Its
  \<open>type\<close> is set before each \<open>return\<close>, its \<open>direction\<close> and \<open>reason\<close>
  may stay \<open>null\<close>.\<close>

record breakout =
  btype :: breakout_type
  bdirection :: "direction option"
  breason :: "string option"
  bentryPrice :: rat

record day_levels =
  currentHigh :: rat
  currentLow :: rat
  previousHigh :: "rat option"
  previousLow :: "rat option"
  candles :: "candle list"

text \<open>\<open>DateUtils.groupCandlesByDay\<close>: an object from date to the candles of that date,
  its keys in the order of first insertion.\<close>

definition addCandle ::
  "(int \<Rightarrow> 'd) \<Rightarrow> ('d \<times> candle list) list \<Rightarrow> candle \<Rightarrow> ('d \<times> candle list) list" where
  "addCandle getDateOnly grouped c =
     (let d = getDateOnly (openTime c)
      in case map_of grouped d of
           None \<Rightarrow> grouped @ [(d, [c])]
         | Some cs \<Rightarrow> map (\<lambda>(k, v). if k = d then (k, v @ [c]) else (k, v)) grouped)"

definition groupCandlesByDay ::
  "(int \<Rightarrow> 'd) \<Rightarrow> candle list \<Rightarrow> ('d \<times> candle list) list" where
  "groupCandlesByDay getDateOnly cs = foldl (addCandle getDateOnly) [] cs"

definition dayCandles :: "('d \<times> candle list) list \<Rightarrow> 'd \<Rightarrow> candle list" where
  "dayCandles dailyCandles d = (case map_of dailyCandles d of None \<Rightarrow> [] | Some cs \<Rightarrow> cs)"

text \<open>The loop of \<open>calculateDailyLevels\<close> over the sorted dates; \<open>prev\<close> is
  \<open>dates[i - 1]\<close>, absent when \<open>i = 0\<close>.\<close>

fun levelsLoop ::
  "('d \<times> candle list) list \<Rightarrow> 'd option \<Rightarrow> 'd list \<Rightarrow> ('d \<times> day_levels) list" where
  "levelsLoop dailyCandles prev [] = []"
| "levelsLoop dailyCandles prev (currentDate # dates) =
     (currentDate,
      \<lparr> currentHigh = mathMax (map high (dayCandles dailyCandles currentDate)),
        currentLow = mathMin (map low (dayCandles dailyCandles currentDate)),
        previousHigh =
          (case prev of None \<Rightarrow> None
           | Some previousDate \<Rightarrow> Some (mathMax (map high (dayCandles dailyCandles previousDate)))),
        previousLow =
          (case prev of None \<Rightarrow> None
           | Some previousDate \<Rightarrow> Some (mathMin (map low (dayCandles dailyCandles previousDate)))),
        candles = dayCandles dailyCandles currentDate \<rparr>)
     # levelsLoop dailyCandles (Some currentDate) dates"

definition calculateDailyLevels ::
  "(int \<Rightarrow> 'd::linorder) \<Rightarrow> candle list \<Rightarrow> ('d \<times> day_levels) list" where
  "calculateDailyLevels getDateOnly cs =
     (let dailyCandles = groupCandlesByDay getDateOnly cs;
          dates = sort (map fst dailyCandles)
      in levelsLoop dailyCandles None dates)"

definition detectBreakout :: "candle \<Rightarrow> rat option \<Rightarrow> rat option \<Rightarrow> breakout option" where
  "detectBreakout c dailyHigh dailyLow =
     (if falsy dailyHigh \<or> falsy dailyLow then None
      else if high c > toNumber dailyHigh then
        Some (if open c > toNumber dailyHigh \<and> close c > toNumber dailyHigh then
                \<lparr> btype = BREAKOUT_HIGH, bdirection = Some LONG,
                  breason = Some ''Body above previous high'', bentryPrice = close c \<rparr>
              else if open c < toNumber dailyHigh \<and> close c < toNumber dailyHigh then
                \<lparr> btype = BREAKOUT_HIGH, bdirection = Some SHORT,
                  breason = Some ''Body below previous high, wick touched above'',
                  bentryPrice = close c \<rparr>
              else
                \<lparr> btype = BREAKOUT_HIGH, bdirection = None, breason = None,
                  bentryPrice = close c \<rparr>)
      else if low c < toNumber dailyLow then
        Some (if open c < toNumber dailyLow \<and> close c < toNumber dailyLow then
                \<lparr> btype = BREAKOUT_LOW, bdirection = Some SHORT,
                  breason = Some ''Body below previous low'', bentryPrice = close c \<rparr>
              else if open c > toNumber dailyLow \<and> close c > toNumber dailyLow then
                \<lparr> btype = BREAKOUT_LOW, bdirection = Some LONG,
                  breason = Some ''Body above previous low, wick touched below'',
                  bentryPrice = close c \<rparr>
              else
                \<lparr> btype = BREAKOUT_LOW, bdirection = None, breason = None,
                  bentryPrice = close c \<rparr>)
      else None)"

text \<open>A signal, as \<open>shouldOpenTrade\<close> builds it, without its display string
  \<open>time\<close>. Its properties \<open>type\<close>, \<open>direction\<close>, \<open>entryPrice\<close> and
  \<open>reason\<close> are prefixed with \<open>s\<close>, the trade having properties of the same
  names.\<close>

record 'd signal =
  date :: 'd
  stype :: breakout_type
  sdirection :: direction
  sentryPrice :: rat
  dailyHigh :: rat
  dailyLow :: rat
  sreason :: "string option"
  candle :: candle

definition shouldOpenTrade ::
  "('d \<times> day_levels) list \<Rightarrow> candle \<Rightarrow> 'd \<Rightarrow> 'd signal list \<Rightarrow> 'd signal option" where
  "shouldOpenTrade dailyLevels c currentDate todayTrades =
     (if length todayTrades > 0 then None
      else case map_of dailyLevels currentDate of
        None \<Rightarrow> None
      | Some dayData \<Rightarrow>
          if falsy (previousHigh dayData) \<or> falsy (previousLow dayData) then None
          else (case detectBreakout c (previousHigh dayData) (previousLow dayData) of
                  None \<Rightarrow> None
                | Some b \<Rightarrow>
                    (case bdirection b of
                       None \<Rightarrow> None
                     | Some dir \<Rightarrow>
                         Some \<lparr> date = currentDate, stype = btype b, sdirection = dir,
                                sentryPrice = bentryPrice b,
                                dailyHigh = toNumber (previousHigh dayData),
                                dailyLow = toNumber (previousLow dayData),
                                sreason = breason b, candle = c \<rparr>)))"

text \<open>One round of the loop of \<open>processCandles\<close>; the state is the array \<open>signals\<close>
  and the object \<open>dailyTrades\<close>.\<close>

definition processStep ::
  "('d \<times> day_levels) list \<Rightarrow> (int \<Rightarrow> 'd) \<Rightarrow> 'd signal list \<times> ('d \<rightharpoonup> 'd signal) \<Rightarrow> candle
     \<Rightarrow> 'd signal list \<times> ('d \<rightharpoonup> 'd signal)" where
  "processStep dailyLevels getDateOnly st c =
     (let signals = fst st; dailyTrades = snd st;
          currentDate = getDateOnly (openTime c)
      in case dailyTrades currentDate of
           Some _ \<Rightarrow> (signals, dailyTrades)
         | None \<Rightarrow>
             (case shouldOpenTrade dailyLevels c currentDate
                     (case dailyTrades currentDate of None \<Rightarrow> [] | Some t \<Rightarrow> [t]) of
                Some s \<Rightarrow> (signals @ [s], dailyTrades(currentDate \<mapsto> s))
              | None \<Rightarrow> (signals, dailyTrades)))"

definition processLoop ::
  "('d \<times> day_levels) list \<Rightarrow> (int \<Rightarrow> 'd) \<Rightarrow> candle list \<Rightarrow> 'd signal list \<times> ('d \<rightharpoonup> 'd signal)" where
  "processLoop dailyLevels getDateOnly cs =
     foldl (processStep dailyLevels getDateOnly) ([], Map.empty) cs"

definition processCandles :: "(int \<Rightarrow> 'd::linorder) \<Rightarrow> candle list \<Rightarrow> 'd signal list" where
  "processCandles getDateOnly cs =
     fst (processLoop (calculateDailyLevels getDateOnly cs) getDateOnly cs)"

section \<open>TradeSimulator\<close>

text \<open>A trade. Its \<open>id\<close> is the string \<open>trade_n\<close>; \<open>tid\<close> is the number
  \<open>n\<close>. Its \<open>leverage\<close> is \<open>tleverage\<close>. The three exit properties start as
  \<open>null\<close>.\<close>

record 'd trade =
  tid :: nat
  signal :: "'d signal"
  entryPrice :: rat
  entryTime :: int
  direction :: direction
  positionSize :: rat
  tleverage :: rat
  stopLoss :: rat
  takeProfit :: rat
  exitPrice :: "rat option"
  exitTime :: "int option"
  exitReason :: "string option"
  resultUSD :: rat
  resultPercent :: rat
  durationHours :: int

text \<open>An entry of \<open>dailyResults\<close>, as \<open>recordDailyResult\<close> writes it; its
  property \<open>trade\<close> is \<open>dtrade\<close>.\<close>

record 'd daily_result =
  tradeExecuted :: bool
  dtrade :: "'d trade"
  balanceBefore :: rat
  balanceAfter :: rat
  dailyReturn :: rat

text \<open>The fields of a \<open>TradeSimulator\<close>. A method that assigns to a field returns
  the new simulator.\<close>

record 'd simulator =
  initialCapital :: rat
  leverage :: rat
  maxHours :: rat
  stopLossPercent :: rat
  takeProfitPercent :: rat
  currentBalance :: rat
  trades :: "'d trade list"
  dailyResults :: "'d \<rightharpoonup> 'd daily_result"

text \<open>The constructor: the balance starts at the initial capital.\<close>

definition newSimulator :: "rat \<Rightarrow> rat \<Rightarrow> rat \<Rightarrow> rat \<Rightarrow> rat \<Rightarrow> 'd simulator" where
  "newSimulator capital lev maxH slPercent tpPercent =
     \<lparr> initialCapital = capital, leverage = lev, maxHours = maxH,
       stopLossPercent = slPercent, takeProfitPercent = tpPercent,
       currentBalance = capital, trades = [], dailyResults = Map.empty \<rparr>"

text \<open>The value \<open>checkExitConditions\<close> returns.\<close>

record exit_condition =
  price :: rat
  reason :: string

text \<open>The exceptions of the simulator: reading a property of \<open>undefined\<close>.\<close>

datatype error = TypeError

definition checkExitConditions ::
  "'d simulator \<Rightarrow> candle \<Rightarrow> 'd trade \<Rightarrow> exit_condition option" where
  "checkExitConditions sim c trade =
     (if shouldCloseByTime (entryTime trade) (openTime c) (maxHours sim) then
        Some \<lparr> price = close c, reason = ''TIME'' \<rparr>
      else if direction trade = LONG \<and> low c \<le> stopLoss trade then
        Some \<lparr> price = stopLoss trade, reason = ''SL'' \<rparr>
      else if direction trade = SHORT \<and> high c \<ge> stopLoss trade then
        Some \<lparr> price = stopLoss trade, reason = ''SL'' \<rparr>
      else if direction trade = LONG \<and> high c \<ge> takeProfit trade then
        Some \<lparr> price = takeProfit trade, reason = ''TP'' \<rparr>
      else if direction trade = SHORT \<and> low c \<le> takeProfit trade then
        Some \<lparr> price = takeProfit trade, reason = ''TP'' \<rparr>
      else None)"

text \<open>\<open>calculateTradeResult\<close>: the pair \<open>(usd, percent)\<close>. It reads the balance the
  simulator holds when it is called.\<close>

definition calculateTradeResult ::
  "(rat \<Rightarrow> rat) \<Rightarrow> 'd simulator \<Rightarrow> 'd trade \<Rightarrow> rat \<times> rat" where
  "calculateTradeResult fl sim trade =
     (let pricePercent =
            calculateTradeResultPercent fl (entryPrice trade) (toNumber (exitPrice trade))
              (direction trade);
          usd = fl (fl (fl (pricePercent / 100) * currentBalance sim) * leverage sim);
          capitalPercent = fl (pricePercent * leverage sim)
      in (roundTo fl usd 2, roundTo fl capitalPercent 2))"

definition updateBalance :: "(rat \<Rightarrow> rat) \<Rightarrow> 'd simulator \<Rightarrow> rat \<Rightarrow> 'd simulator" where
  "updateBalance fl sim tradeResult =
     sim\<lparr> currentBalance := roundTo fl (fl (currentBalance sim + tradeResult)) 2 \<rparr>"

definition recordDailyResult ::
  "(rat \<Rightarrow> rat) \<Rightarrow> 'd simulator \<Rightarrow> 'd \<Rightarrow> 'd trade \<Rightarrow> 'd simulator" where
  "recordDailyResult fl sim d trade =
     sim\<lparr> dailyResults := (dailyResults sim)
            (d \<mapsto> \<lparr> tradeExecuted = True, dtrade = trade,
                    balanceBefore = fl (currentBalance sim - resultUSD trade),
                    balanceAfter = currentBalance sim,
                    dailyReturn = resultUSD trade \<rparr>) \<rparr>"

text \<open>The object literal that opens a trade, in \<open>simulateTrade\<close> and
  \<open>simulateTradeSilent\<close>.\<close>

definition openTrade :: "(rat \<Rightarrow> rat) \<Rightarrow> 'd simulator \<Rightarrow> 'd signal \<Rightarrow> 'd trade" where
  "openTrade fl sim sg =
     \<lparr> tid = length (trades sim) + 1,
       signal = sg,
       entryPrice = sentryPrice sg,
       entryTime = openTime (candle sg),
       direction = sdirection sg,
       positionSize = fl (currentBalance sim * leverage sim),
       tleverage = leverage sim,
       stopLoss = calculateStopLoss fl (sentryPrice sg) (sdirection sg) (leverage sim)
                    (stopLossPercent sim),
       takeProfit = calculateTakeProfit fl (sentryPrice sg) (sdirection sg) (leverage sim)
                      (takeProfitPercent sim),
       exitPrice = None, exitTime = None, exitReason = None,
       resultUSD = 0, resultPercent = 0, durationHours = 0 \<rparr>"

text \<open>The assignments that close a trade at a price, a time and a reason, then store its
  result: the body of \<open>if (exitCondition)\<close> and of the fallback after the loop.\<close>

definition closeTrade ::
  "(rat \<Rightarrow> rat) \<Rightarrow> 'd simulator \<Rightarrow> 'd trade \<Rightarrow> rat \<Rightarrow> int \<Rightarrow> string \<Rightarrow> 'd trade" where
  "closeTrade fl sim trade p t r =
     (let closed = trade\<lparr> exitPrice := Some p, exitTime := Some t, exitReason := Some r,
                         durationHours := getHoursDifference (entryTime trade) t \<rparr>;
          result = calculateTradeResult fl sim closed
      in closed\<lparr> resultUSD := fst result, resultPercent := snd result \<rparr>)"

text \<open>The \<open>for\<close> loop over the remaining candles: it stops at the first candle with an
  exit condition.\<close>

fun exitLoop ::
  "(rat \<Rightarrow> rat) \<Rightarrow> 'd simulator \<Rightarrow> 'd trade \<Rightarrow> candle list \<Rightarrow> 'd trade" where
  "exitLoop fl sim trade [] = trade"
| "exitLoop fl sim trade (c # cs) =
     (case checkExitConditions sim c trade of
        Some exitCondition \<Rightarrow>
          closeTrade fl sim trade (price exitCondition) (openTime c) (reason exitCondition)
      | None \<Rightarrow> exitLoop fl sim trade cs)"

text \<open>The end of a simulation: the balance is updated, the trade is pushed and the daily
  result is recorded. The trade and the new simulator are returned.\<close>

definition settle ::
  "(rat \<Rightarrow> rat) \<Rightarrow> 'd simulator \<Rightarrow> 'd signal \<Rightarrow> 'd trade \<Rightarrow> 'd trade \<times> 'd simulator" where
  "settle fl sim sg trade =
     (let sim1 = updateBalance fl sim (resultUSD trade);
          sim2 = sim1\<lparr> trades := trades sim1 @ [trade] \<rparr>;
          sim3 = recordDailyResult fl sim2 (date sg) trade
      in (trade, sim3))"

text \<open>\<open>simulateTradeSilent\<close>. The fallback \<open>if (!trade.exitPrice)\<close> reads
  \<open>remainingCandles[remainingCandles.length - 1]\<close>, which is \<open>undefined\<close> on an empty
  array, and then its property \<open>close\<close>: a TypeError.\<close>

definition simulateTradeSilent ::
  "(rat \<Rightarrow> rat) \<Rightarrow> 'd simulator \<Rightarrow> 'd signal \<Rightarrow> candle list
     \<Rightarrow> error + ('d trade \<times> 'd simulator)" where
  "simulateTradeSilent fl sim sg remainingCandles =
     (let trade = exitLoop fl sim (openTrade fl sim sg) remainingCandles
      in if falsy (exitPrice trade) then
           (case remainingCandles of
              [] \<Rightarrow> Inl TypeError
            | _ # _ \<Rightarrow>
                (let lastCandle = last remainingCandles
                 in Inr (settle fl sim sg
                      (closeTrade fl sim trade (close lastCandle) (openTime lastCandle)
                         ''END_OF_DAY''))))
         else Inr (settle fl sim sg trade))"

text \<open>\<open>simulateTrade\<close> is \<open>simulateTradeSilent\<close> with console output between the
  same statements.\<close>

definition simulateTrade ::
  "(rat \<Rightarrow> rat) \<Rightarrow> 'd simulator \<Rightarrow> 'd signal \<Rightarrow> candle list
     \<Rightarrow> error + ('d trade \<times> 'd simulator)" where
  "simulateTrade fl sim sg remainingCandles = simulateTradeSilent fl sim sg remainingCandles"

text \<open>\<open>getTradingStats\<close>: an object of Numbers, as the list of its properties in
  the order of the object literal. \<open>map_of\<close> reads a property; \<open>None\<close> is
  \<open>undefined\<close>.\<close>

definition getTradingStats :: "(rat \<Rightarrow> rat) \<Rightarrow> 'd simulator \<Rightarrow> (string \<times> rat) list" where
  "getTradingStats fl sim =
     (let winningTrades = filter (\<lambda>t. resultUSD t > 0) (trades sim);
          losingTrades = filter (\<lambda>t. resultUSD t < 0) (trades sim);
          totalReturn = fl (currentBalance sim - initialCapital sim);
          totalReturnPercent = fl (fl (totalReturn / initialCapital sim) * 100);
          winRate =
            (if length (trades sim) > 0
             then fl (fl (of_nat (length winningTrades) / of_nat (length (trades sim))) * 100)
             else 0);
          avgWin =
            (if length winningTrades > 0
             then fl (foldl (\<lambda>sum t. fl (sum + resultUSD t)) 0 winningTrades
                    / of_nat (length winningTrades))
             else 0);
          avgLoss =
            (if length losingTrades > 0
             then \<bar>fl (foldl (\<lambda>sum t. fl (sum + resultUSD t)) 0 losingTrades
                    / of_nat (length losingTrades))\<bar>
             else 0)
      in [(''totalTrades'', of_nat (length (trades sim))),
          (''winningTrades'', of_nat (length winningTrades)),
          (''losingTrades'', of_nat (length losingTrades)),
          (''winRate'', roundTo fl winRate 2),
          (''initialCapital'', initialCapital sim),
          (''finalBalance'', currentBalance sim),
          (''totalReturn'', roundTo fl totalReturn 2),
          (''totalReturnPercent'', roundTo fl totalReturnPercent 2),
          (''avgWin'', roundTo fl avgWin 2),
          (''avgLoss'', roundTo fl avgLoss 2)])"

section \<open>DataFormatter\<close>

definition calculateMaxDrawdown :: "(rat \<Rightarrow> rat) \<Rightarrow> (string \<times> rat) list \<Rightarrow> rat option" where
  "calculateMaxDrawdown fl tradingStats =
     map_option (\<lambda>avgLoss. fl (\<bar>avgLoss\<bar> * 3)) (map_of tradingStats ''avgLoss'')"

definition calculateMaxDrawdownPercent ::
  "(rat \<Rightarrow> rat) \<Rightarrow> (string \<times> rat) list \<Rightarrow> rat option" where
  "calculateMaxDrawdownPercent fl tradingStats =
     (case (calculateMaxDrawdown fl tradingStats, map_of tradingStats ''initialCapital'') of
        (Some maxDrawdown, Some capital) \<Rightarrow> Some (fl (fl (maxDrawdown / capital) * 100))
      | _ \<Rightarrow> None)"

text \<open>\<open>formatSummary\<close>: the summary of the exported file, as the list of its
  properties. A value \<open>None\<close> is \<open>undefined\<close>.\<close>

definition formatSummary ::
  "(rat \<Rightarrow> rat) \<Rightarrow> (string \<times> rat) list \<Rightarrow> (string \<times> rat option) list" where
  "formatSummary fl tradingStats =
     [(''totalTrades'', map_of tradingStats ''totalTrades''),
      (''winningTrades'', map_of tradingStats ''winningTrades''),
      (''losingTrades'', map_of tradingStats ''losingTrades''),
      (''winRate'', map_of tradingStats ''winRate''),
      (''totalReturn'', map_of tradingStats ''totalReturn''),
      (''totalReturnPercent'', map_of tradingStats ''totalReturnPercent''),
      (''finalBalance'', map_of tradingStats ''finalBalance''),
      (''avgWin'', map_of tradingStats ''avgWin''),
      (''avgLoss'', map_of tradingStats ''avgLoss''),
      (''maxDrawdown'', calculateMaxDrawdown fl tradingStats),
      (''maxDrawdownPercent'', calculateMaxDrawdownPercent fl tradingStats)]"

section \<open>BacktestEngine\<close>

definition getAllDays :: "(int \<Rightarrow> 'd::linorder) \<Rightarrow> candle list \<Rightarrow> 'd list" where
  "getAllDays getDateOnly cs = sort (remdups (map (\<lambda>c. getDateOnly (openTime c)) cs))"

text \<open>\<open>groupSignalsByDay\<close>, read at a day: \<open>signalsByDay[day] || []\<close>.\<close>

definition groupSignalsByDay :: "'d signal list \<Rightarrow> 'd \<Rightarrow> 'd signal list" where
  "groupSignalsByDay sigs day = filter (\<lambda>s. date s = day) sigs"

text \<open>\<open>Array.prototype.findIndex\<close>; \<open>None\<close> is \<open>-1\<close>.\<close>

fun findIndex :: "('a \<Rightarrow> bool) \<Rightarrow> 'a list \<Rightarrow> nat option" where
  "findIndex P [] = None"
| "findIndex P (x # xs) = (if P x then Some 0 else map_option Suc (findIndex P xs))"

definition showSignalAndTrade ::
  "(rat \<Rightarrow> rat) \<Rightarrow> 'd simulator \<Rightarrow> 'd signal \<Rightarrow> candle list
     \<Rightarrow> error + ('d trade \<times> 'd simulator)" where
  "showSignalAndTrade fl sim sg remainingCandles = simulateTradeSilent fl sim sg remainingCandles"

text \<open>The inner loop of \<open>simulateAllTradesWithLogs\<close>, over the signals of a day. The
  state is the simulator and the engine's array \<open>trades\<close>; an exception ends the run.\<close>

fun daySignalsLoop ::
  "(rat \<Rightarrow> rat) \<Rightarrow> candle list \<Rightarrow> 'd simulator \<times> 'd trade list \<Rightarrow> 'd signal list
     \<Rightarrow> error + ('d simulator \<times> 'd trade list)" where
  "daySignalsLoop fl cs st [] = Inr st"
| "daySignalsLoop fl cs st (sg # daySignals) =
     (case findIndex (\<lambda>c. openTime c = openTime (candle sg)) cs of
        None \<Rightarrow> daySignalsLoop fl cs st daySignals
      | Some entryCandleIndex \<Rightarrow>
          (case showSignalAndTrade fl (fst st) sg (drop (entryCandleIndex + 1) cs) of
             Inl e \<Rightarrow> Inl e
           | Inr (trade, sim') \<Rightarrow> daySignalsLoop fl cs (sim', snd st @ [trade]) daySignals))"

fun daysLoop ::
  "(rat \<Rightarrow> rat) \<Rightarrow> candle list \<Rightarrow> 'd signal list \<Rightarrow> 'd simulator \<times> 'd trade list \<Rightarrow> 'd list
     \<Rightarrow> error + ('d simulator \<times> 'd trade list)" where
  "daysLoop fl cs sigs st [] = Inr st"
| "daysLoop fl cs sigs st (day # allDays) =
     (case daySignalsLoop fl cs st (groupSignalsByDay sigs day) of
        Inl e \<Rightarrow> Inl e
      | Inr st' \<Rightarrow> daysLoop fl cs sigs st' allDays)"

definition simulateAllTradesWithLogs ::
  "(rat \<Rightarrow> rat) \<Rightarrow> (int \<Rightarrow> 'd::linorder) \<Rightarrow> 'd simulator \<Rightarrow> 'd signal list \<Rightarrow> candle list
     \<Rightarrow> error + ('d simulator \<times> 'd trade list)" where
  "simulateAllTradesWithLogs fl getDateOnly sim sigs cs =
     daysLoop fl cs sigs (sim, []) (getAllDays getDateOnly cs)"

text \<open>What \<open>runBacktest\<close> returns, without the symbol and the counts of the signals;
  its properties \<open>signals\<close>, \<open>trades\<close> and \<open>dailyResults\<close> are prefixed with
  \<open>b\<close>. The export to a file is inside a \<open>try\<close> whose \<open>catch\<close> only
  prints.\<close>

record 'd backtest_data =
  totalCandles :: nat
  bsignals :: "'d signal list"
  btrades :: "'d trade list"
  tradingStats :: "(string \<times> rat) list"
  bdailyResults :: "'d \<rightharpoonup> 'd daily_result"

definition runBacktest ::
  "(rat \<Rightarrow> rat) \<Rightarrow> (int \<Rightarrow> 'd::linorder) \<Rightarrow> 'd simulator \<Rightarrow> candle list
     \<Rightarrow> error + 'd backtest_data" where
  "runBacktest fl getDateOnly sim cs =
     (let sigs = processCandles getDateOnly cs
      in case simulateAllTradesWithLogs fl getDateOnly sim sigs cs of
           Inl e \<Rightarrow> Inl e
         | Inr (sim', trs) \<Rightarrow>
             Inr \<lparr> totalCandles = length cs, bsignals = sigs, btrades = trs,
                   tradingStats = getTradingStats fl sim',
                   bdailyResults = dailyResults sim' \<rparr>)"

section \<open>Example inputs\<close>

text \<open>Concrete inputs for the examples below: a \<open>getDateOnly\<close> that numbers the days
  of UTC, a candle from its five fields, the simulator with the default configuration
  (capital 100, leverage 5, 4 hours, stop-loss 10 percent, take-profit 20 percent), and a
  LONG and a SHORT signal at the entry price 100; the same simulator with the capital
  50.25, and with the capital 100.2 as a double.\<close>

definition exDay :: "int \<Rightarrow> int" where
  "exDay t = t div 86400000"

definition bar :: "int \<Rightarrow> rat \<Rightarrow> rat \<Rightarrow> rat \<Rightarrow> rat \<Rightarrow> candle" where
  "bar t opn hi lo cl = \<lparr> openTime = t, open = opn, high = hi, low = lo, close = cl \<rparr>"

definition exSim :: "int simulator" where
  "exSim = newSimulator 100 5 4 10 20"

definition exLong :: "int signal" where
  "exLong = \<lparr> date = 1, stype = BREAKOUT_HIGH, sdirection = LONG, sentryPrice = 100,
             dailyHigh = 99, dailyLow = 90, sreason = Some ''Body above previous high'',
             candle = bar 86400000 (199 / 2) 101 99 100 \<rparr>"

definition exShort :: "int signal" where
  "exShort = \<lparr> date = 2, stype = BREAKOUT_LOW, sdirection = SHORT, sentryPrice = 100,
              dailyHigh = 110, dailyLow = 101, sreason = Some ''Body below previous low'',
              candle = bar 172800000 (201 / 2) 101 99 100 \<rparr>"

definition exSim50 :: "int simulator" where
  "exSim50 = newSimulator (201 / 4) 5 4 10 20"

definition exSim1002 :: "int simulator" where
  "exSim1002 = newSimulator (binary64 (501 / 5)) 5 4 10 20"

definition exCandles :: "candle list" where
  "exCandles = [bar 0 10 12 9 11, bar 86400000 13 15 13 14, bar 90000000 8 8 6 7]"

section \<open>Evaluating numbers\<close>

text \<open>Rules with which the simplifier computes floors, bit lengths and roundings of
  numerals.\<close>

lemma floor_rat_numeral_div:
  "\<lfloor>numeral a / numeral b :: rat\<rfloor> = numeral a div numeral b"
  by (metis floor_divide_of_int_eq of_int_numeral)

lemma floor_rat_minus_numeral_div:
  "\<lfloor>- (numeral a / numeral b) :: rat\<rfloor> = - numeral a div numeral b"
  by (metis divide_minus_left floor_divide_of_int_eq of_int_neg_numeral of_int_numeral)

lemma ceiling_rat_numeral_div:
  "\<lceil>numeral a / numeral b :: rat\<rceil> = - (- numeral a div numeral b)"
  by (simp add: ceiling_def floor_rat_minus_numeral_div)

lemma bits_eval:
  "bits 0 = 0" "bits (Suc 0) = Suc 0" "bits (numeral k) = Suc (bits (numeral k div 2))"
  by (subst bits.simps, simp add: bits.simps [of 0])+

lemmas binary64_eval = binary64_def exponent_def pow2_def roundHalfEven_def roundTo_def
  mathRound_def Let_def bits_eval floor_rat_numeral_div floor_rat_minus_numeral_div
  ceiling_rat_numeral_div

text \<open>The rounding at work: in doubles \<open>0.1 + 0.2\<close> is
  \<open>0.30000000000000004\<close>, and a double is its own rounding.\<close>

lemma binary64_examples:
  "binary64 (binary64 (1 / 10) + binary64 (2 / 10)) = 1351079888211149 / 4503599627370496"
  "binary64 (3 / 10) = 5404319552844595 / 18014398509481984"
  "binary64 (201 / 4) = 201 / 4"
  "binary64 (- 3) = - 3"
  by (simp_all add: binary64_eval)

section \<open>Stop-loss and take-profit geometry\<close>




section \<open>The trade simulator\<close>

lemma closeTrade_fields:
  "exitPrice (closeTrade fl sim t p tm r) = Some p"
  "exitTime (closeTrade fl sim t p tm r) = Some tm"
  "exitReason (closeTrade fl sim t p tm r) = Some r"
  "entryPrice (closeTrade fl sim t p tm r) = entryPrice t"
  "entryTime (closeTrade fl sim t p tm r) = entryTime t"
  "direction (closeTrade fl sim t p tm r) = direction t"
  "positionSize (closeTrade fl sim t p tm r) = positionSize t"
  "stopLoss (closeTrade fl sim t p tm r) = stopLoss t"
  "takeProfit (closeTrade fl sim t p tm r) = takeProfit t"
  "durationHours (closeTrade fl sim t p tm r) = getHoursDifference (entryTime t) tm"
  by (simp_all add: closeTrade_def Let_def)

lemma closeTrade_result:
  "resultUSD (closeTrade fl sim t p tm r) =
     roundTo fl
       (fl (fl (fl (calculateTradeResultPercent fl (entryPrice t) p (direction t) / 100)
                 * currentBalance sim) * leverage sim)) 2"
  "resultPercent (closeTrade fl sim t p tm r) =
     roundTo fl
       (fl (calculateTradeResultPercent fl (entryPrice t) p (direction t) * leverage sim)) 2"
  by (simp_all add: closeTrade_def calculateTradeResult_def toNumber_def Let_def)

lemma closeTrade_closeTrade:
  "closeTrade fl sim (closeTrade fl sim t p1 t1 r1) p2 t2 r2 = closeTrade fl sim t p2 t2 r2"
  by (simp add: closeTrade_def calculateTradeResult_def toNumber_def Let_def)

lemma openTrade_fields:
  "exitPrice (openTrade fl sim sg) = None"
  "exitReason (openTrade fl sim sg) = None"
  "entryPrice (openTrade fl sim sg) = sentryPrice sg"
  "entryTime (openTrade fl sim sg) = openTime (candle sg)"
  "direction (openTrade fl sim sg) = sdirection sg"
  "positionSize (openTrade fl sim sg) = fl (currentBalance sim * leverage sim)"
  "stopLoss (openTrade fl sim sg) =
     calculateStopLoss fl (sentryPrice sg) (sdirection sg) (leverage sim) (stopLossPercent sim)"
  "takeProfit (openTrade fl sim sg) =
     calculateTakeProfit fl (sentryPrice sg) (sdirection sg) (leverage sim) (takeProfitPercent sim)"
  by (simp_all add: openTrade_def)

lemma exitLoop_none:
  "\<forall>b \<in> set cs. checkExitConditions sim b t = None \<Longrightarrow> exitLoop fl sim t cs = t"
  by (induction cs) simp_all

lemma exitLoop_first:
  "\<forall>b \<in> set pre. checkExitConditions sim b t = None \<Longrightarrow>
   checkExitConditions sim c t = Some ec \<Longrightarrow>
   exitLoop fl sim t (pre @ c # post) = closeTrade fl sim t (price ec) (openTime c) (reason ec)"
  by (induction pre) simp_all

lemma exitLoop_cases:
  "exitLoop fl sim t cs = t \<and> (\<forall>b \<in> set cs. checkExitConditions sim b t = None)
   \<or> (\<exists>c \<in> set cs. \<exists>ec. checkExitConditions sim c t = Some ec
         \<and> exitLoop fl sim t cs = closeTrade fl sim t (price ec) (openTime c) (reason ec))"
  by (induction cs) (auto split: option.splits)

lemma checkExitConditions_reason:
  "checkExitConditions sim c t = Some ec \<Longrightarrow> reason ec \<in> {''TIME'', ''SL'', ''TP''}"
  by (auto simp: checkExitConditions_def split: if_splits)

lemma settle_fst: "fst (settle fl sim sg t) = t"
  by (simp add: settle_def Let_def)

lemma settle_snd:
  "currentBalance (snd (settle fl sim sg t)) = roundTo fl (fl (currentBalance sim + resultUSD t)) 2"
  "leverage (snd (settle fl sim sg t)) = leverage sim"
  "trades (snd (settle fl sim sg t)) = trades sim @ [t]"
  "dailyResults (snd (settle fl sim sg t)) (date sg) =
     Some \<lparr> tradeExecuted = True, dtrade = t,
            balanceBefore =
              fl (roundTo fl (fl (currentBalance sim + resultUSD t)) 2 - resultUSD t),
            balanceAfter = roundTo fl (fl (currentBalance sim + resultUSD t)) 2,
            dailyReturn = resultUSD t \<rparr>"
  by (simp_all add: settle_def updateBalance_def recordDailyResult_def Let_def)

lemma simulateTradeSilent_empty: "simulateTradeSilent fl sim sg [] = Inl TypeError"
  by (simp add: simulateTradeSilent_def openTrade_fields falsy_def)

lemma simulateTradeSilent_unfold:
  "cs \<noteq> [] \<Longrightarrow>
   simulateTradeSilent fl sim sg cs =
     Inr (settle fl sim sg
       (if falsy (exitPrice (exitLoop fl sim (openTrade fl sim sg) cs))
        then closeTrade fl sim (exitLoop fl sim (openTrade fl sim sg) cs)
               (close (last cs)) (openTime (last cs)) ''END_OF_DAY''
        else exitLoop fl sim (openTrade fl sim sg) cs))"
  by (cases cs) (simp_all add: simulateTradeSilent_def Let_def)

lemma simulateTradeSilent_Inr:
  assumes "simulateTradeSilent fl sim sg cs = Inr (t, sim')"
  shows "cs \<noteq> [] \<and> sim' = snd (settle fl sim sg t)
    \<and> ((\<exists>c \<in> set cs. \<exists>ec. checkExitConditions sim c (openTrade fl sim sg) = Some ec
          \<and> t = closeTrade fl sim (openTrade fl sim sg) (price ec) (openTime c) (reason ec))
       \<or> t = closeTrade fl sim (openTrade fl sim sg) (close (last cs)) (openTime (last cs)) ''END_OF_DAY'')"
proof -
  let ?t0 = "openTrade fl sim sg"
  let ?e = "exitLoop fl sim ?t0 cs"
  let ?r = "if falsy (exitPrice ?e)
            then closeTrade fl sim ?e (close (last cs)) (openTime (last cs)) ''END_OF_DAY''
            else ?e"
  from assms have ne: "cs \<noteq> []"
    by (auto simp: simulateTradeSilent_empty)
  with assms have "settle fl sim sg ?r = (t, sim')"
    by (simp add: simulateTradeSilent_unfold)
  then have t: "t = ?r" and sim': "sim' = snd (settle fl sim sg t)"
    using settle_fst [of fl sim sg ?r] by auto
  consider (stay) "?e = ?t0"
    | (hit) c ec where "c \<in> set cs" "checkExitConditions sim c ?t0 = Some ec"
        "?e = closeTrade fl sim ?t0 (price ec) (openTime c) (reason ec)"
    using exitLoop_cases [of fl sim ?t0 cs] by blast
  then have "(\<exists>c \<in> set cs. \<exists>ec. checkExitConditions sim c ?t0 = Some ec
          \<and> t = closeTrade fl sim ?t0 (price ec) (openTime c) (reason ec))
       \<or> t = closeTrade fl sim ?t0 (close (last cs)) (openTime (last cs)) ''END_OF_DAY''"
  proof cases
    case stay
    then have "t = closeTrade fl sim ?t0 (close (last cs)) (openTime (last cs)) ''END_OF_DAY''"
      using t by (simp add: openTrade_fields falsy_def)
    then show ?thesis by blast
  next
    case hit
    show ?thesis
    proof (cases "falsy (exitPrice ?e)")
      case True
      then have "t = closeTrade fl sim ?t0 (close (last cs)) (openTime (last cs)) ''END_OF_DAY''"
        using t hit(3) by (simp add: closeTrade_closeTrade)
      then show ?thesis by blast
    next
      case False
      then have "t = closeTrade fl sim ?t0 (price ec) (openTime c) (reason ec)"
        using t hit(3) by simp
      with hit(1,2) show ?thesis by blast
    qed
  qed
  with ne sim' show ?thesis by blast
qed


lemmas ex_defs = exDay_def bar_def exSim_def exSim50_def exSim1002_def exLong_def exShort_def
  newSimulator_def
lemmas sim_defs = simulateTradeSilent_def simulateTrade_def settle_def updateBalance_def
  recordDailyResult_def closeTrade_def openTrade_def calculateTradeResult_def
  calculateTradeResultPercent_def checkExitConditions_def shouldCloseByTime_def
  getHoursDifference_def calculateStopLoss_def calculateTakeProfit_def roundTo_def
  mathRound_def falsy_def toNumber_def Let_def exact_def
  floor_rat_numeral_div floor_rat_minus_numeral_div

text \<open>
  Claim C10. When the entry bar of a signal is the last bar of the input, the sequence of
  remaining bars is empty and the simulation produces no closed trade: the loop finds no
  exit, and the fallback reads the last element of the empty array, which raises a
  TypeError. This holds for \<open>simulateTradeSilent\<close> and \<open>simulateTrade\<close>, and in
  the engine, where the index of the entry bar is the last index, the loop over the
  signals of the day ends with that exception.
\<close>

theorem C10_entry_on_last_bar:
  "simulateTradeSilent fl sim sg [] = Inl TypeError
   \<and> simulateTrade fl sim sg [] = Inl TypeError
   \<and> (findIndex (\<lambda>c. openTime c = openTime (candle sg)) cs = Some (length cs - 1)
        \<longrightarrow> daySignalsLoop fl cs st (sg # rest) = Inl TypeError)"
proof -
  have "daySignalsLoop fl cs st (sg # rest) = Inl TypeError"
    if idx: "findIndex (\<lambda>c. openTime c = openTime (candle sg)) cs = Some (length cs - 1)"
  proof -
    from idx have "cs \<noteq> []" by auto
    then have "drop (length cs - 1 + 1) cs = []" by simp
    with idx show ?thesis
      by (simp add: showSignalAndTrade_def simulateTradeSilent_empty)
  qed
  then show ?thesis
    by (simp add: simulateTrade_def simulateTradeSilent_empty)
qed

theorem C10_entry_on_last_bar_witness:
  "findIndex (\<lambda>c. openTime c = openTime (candle exLong))
       [bar 82800000 98 99 97 98, bar 86400000 (199 / 2) 101 99 100] = Some 1
   \<and> simulateTradeSilent exact exSim exLong [] = Inl TypeError
   \<and> daySignalsLoop exact [bar 82800000 98 99 97 98, bar 86400000 (199 / 2) 101 99 100]
        (exSim, []) [exLong] = Inl TypeError"
  using C10_entry_on_last_bar
    [of exact exSim exLong "[bar 82800000 98 99 97 98, bar 86400000 (199 / 2) 101 99 100]"
        "(exSim, [])" "[]"]
  by (simp add: ex_defs)

text \<open>
  Claim C1, as amended. With at least one bar after the entry bar, the simulation returns a
  trade, and that trade carries exactly one exit reason, one of \<open>TIME\<close>, \<open>SL\<close>,
  \<open>TP\<close> and \<open>END_OF_DAY\<close>. When no remaining bar triggers the TIME, SL or TP check,
  the trade is closed at the close of the last remaining bar, at that bar's open time, with
  the reason \<open>END_OF_DAY\<close>.
\<close>

theorem C1_exit_reason:
  assumes ne: "cs \<noteq> []"
  shows "\<exists>t sim'. simulateTradeSilent fl sim sg cs = Inr (t, sim')
     \<and> simulateTrade fl sim sg cs = Inr (t, sim')
     \<and> exitReason t \<in> {Some ''TIME'', Some ''SL'', Some ''TP'', Some ''END_OF_DAY''}
     \<and> ((\<forall>b \<in> set cs. checkExitConditions sim b (openTrade fl sim sg) = None) \<longrightarrow>
           exitReason t = Some ''END_OF_DAY''
           \<and> exitPrice t = Some (close (last cs))
           \<and> exitTime t = Some (openTime (last cs)))"
proof -
  obtain t sim' where run: "simulateTradeSilent fl sim sg cs = Inr (t, sim')"
    using ne by (simp add: simulateTradeSilent_unfold settle_def Let_def)
  let ?t0 = "openTrade fl sim sg"
  let ?eod = "closeTrade fl sim ?t0 (close (last cs)) (openTime (last cs)) ''END_OF_DAY''"
  from simulateTradeSilent_Inr [OF run]
  consider (hit) c ec where "c \<in> set cs" "checkExitConditions sim c ?t0 = Some ec"
        "t = closeTrade fl sim ?t0 (price ec) (openTime c) (reason ec)"
    | (eod) "t = ?eod"
    by blast
  then have reasons:
    "exitReason t \<in> {Some ''TIME'', Some ''SL'', Some ''TP'', Some ''END_OF_DAY''}"
  proof cases
    case hit
    from checkExitConditions_reason [OF hit(2)] hit(3) show ?thesis
      by (auto simp: closeTrade_fields)
  next
    case eod
    then show ?thesis by (simp add: closeTrade_fields)
  qed
  have fallback: "exitReason t = Some ''END_OF_DAY''
           \<and> exitPrice t = Some (close (last cs))
           \<and> exitTime t = Some (openTime (last cs))"
    if none: "\<forall>b \<in> set cs. checkExitConditions sim b ?t0 = None"
  proof -
    from simulateTradeSilent_Inr [OF run] none have "t = ?eod" by auto
    then show ?thesis by (simp add: closeTrade_fields)
  qed
  from run reasons fallback show ?thesis
    by (auto simp: simulateTrade_def)
qed

text \<open>
  The claim as stated fails: the reason the fallback assigns is the string
  \<open>END_OF_DAY\<close>, which is none of \<open>TIME\<close>, \<open>SL\<close>, \<open>TP\<close>,
  \<open>DATA_EXHAUSTION\<close>; and a signal with no bar after it, for which no bar triggers a
  check, gets no closed trade but an exception.
\<close>

theorem C1_counterexample:
  "exitReason (fst (projr (simulateTradeSilent exact exSim exLong [bar 90000000 100 101 99 100])))
     = Some ''END_OF_DAY''
   \<and> ''END_OF_DAY'' \<notin> {''TIME'', ''SL'', ''TP'', ''DATA_EXHAUSTION''}
   \<and> simulateTradeSilent exact exSim exLong [] = Inl TypeError"
  by (simp add: ex_defs sim_defs)

theorem C1_exit_reason_witness:
  "simulateTradeSilent exact exSim exLong
       [bar 90000000 100 101 99 100, bar 93600000 100 102 99 101]
     = Inr (closeTrade exact exSim (openTrade exact exSim exLong) 101 93600000 ''END_OF_DAY'',
            snd (settle exact exSim exLong
                   (closeTrade exact exSim (openTrade exact exSim exLong) 101 93600000 ''END_OF_DAY'')))
   \<and> close (last [bar 90000000 100 101 99 100, bar 93600000 100 102 99 101]) = 101"
  using C1_exit_reason
    [of "[bar 90000000 100 101 99 100, bar 93600000 100 102 99 101]" exact exSim exLong]
  by (simp add: ex_defs sim_defs)


lemma checkExitConditions_TIME:
  "shouldCloseByTime (entryTime t) (openTime c) (maxHours sim) \<Longrightarrow>
   checkExitConditions sim c t = Some \<lparr> price = close c, reason = ''TIME'' \<rparr>"
  by (simp add: checkExitConditions_def)

lemma checkExitConditions_SL:
  "\<not> shouldCloseByTime (entryTime t) (openTime c) (maxHours sim) \<Longrightarrow>
   direction t = LONG \<and> low c \<le> stopLoss t \<or> direction t = SHORT \<and> stopLoss t \<le> high c \<Longrightarrow>
   checkExitConditions sim c t = Some \<lparr> price = stopLoss t, reason = ''SL'' \<rparr>"
  by (auto simp: checkExitConditions_def)

lemma checkExitConditions_TP:
  "\<not> shouldCloseByTime (entryTime t) (openTime c) (maxHours sim) \<Longrightarrow>
   \<not> (direction t = LONG \<and> low c \<le> stopLoss t \<or> direction t = SHORT \<and> stopLoss t \<le> high c) \<Longrightarrow>
   direction t = LONG \<and> takeProfit t \<le> high c \<or> direction t = SHORT \<and> low c \<le> takeProfit t \<Longrightarrow>
   checkExitConditions sim c t = Some \<lparr> price = takeProfit t, reason = ''TP'' \<rparr>"
  by (auto simp: checkExitConditions_def)

lemma checkExitConditions_None:
  "\<not> shouldCloseByTime (entryTime t) (openTime c) (maxHours sim) \<Longrightarrow>
   \<not> (direction t = LONG \<and> low c \<le> stopLoss t \<or> direction t = SHORT \<and> stopLoss t \<le> high c) \<Longrightarrow>
   \<not> (direction t = LONG \<and> takeProfit t \<le> high c \<or> direction t = SHORT \<and> low c \<le> takeProfit t) \<Longrightarrow>
   checkExitConditions sim c t = None"
  by (auto simp: checkExitConditions_def)

text \<open>
  Claim C2. On a bar, \<open>checkExitConditions\<close> tests TIME first (the whole hours between
  the entry bar's open time and the bar's open time reach the maximum), then SL, then TP,
  and the first test that holds decides: a TIME exit is at the bar's close, an SL exit
  (LONG with \<open>low \<le> stopLoss\<close>, SHORT with \<open>high \<ge> stopLoss\<close>) is at the stop-loss
  price, a TP exit (LONG with \<open>high \<ge> takeProfit\<close>, SHORT with \<open>low \<le> takeProfit\<close>)
  is at the take-profit price, and with no test holding there is no exit. The loop over the
  remaining bars closes the trade at the first bar with an exit, with that bar's price, reason
  and open time.
\<close>

theorem C2_exit_priority:
  "shouldCloseByTime (entryTime t) (openTime c) (maxHours sim)
     = (maxHours sim \<le> of_int (getHoursDifference (entryTime t) (openTime c)))
   \<and> (shouldCloseByTime (entryTime t) (openTime c) (maxHours sim) \<longrightarrow>
        checkExitConditions sim c t = Some \<lparr> price = close c, reason = ''TIME'' \<rparr>)
   \<and> (\<not> shouldCloseByTime (entryTime t) (openTime c) (maxHours sim)
       \<and> (direction t = LONG \<and> low c \<le> stopLoss t
           \<or> direction t = SHORT \<and> stopLoss t \<le> high c) \<longrightarrow>
        checkExitConditions sim c t = Some \<lparr> price = stopLoss t, reason = ''SL'' \<rparr>)
   \<and> (\<not> shouldCloseByTime (entryTime t) (openTime c) (maxHours sim)
       \<and> \<not> (direction t = LONG \<and> low c \<le> stopLoss t
             \<or> direction t = SHORT \<and> stopLoss t \<le> high c)
       \<and> (direction t = LONG \<and> takeProfit t \<le> high c
           \<or> direction t = SHORT \<and> low c \<le> takeProfit t) \<longrightarrow>
        checkExitConditions sim c t = Some \<lparr> price = takeProfit t, reason = ''TP'' \<rparr>)
   \<and> (\<not> shouldCloseByTime (entryTime t) (openTime c) (maxHours sim)
       \<and> \<not> (direction t = LONG \<and> low c \<le> stopLoss t
             \<or> direction t = SHORT \<and> stopLoss t \<le> high c)
       \<and> \<not> (direction t = LONG \<and> takeProfit t \<le> high c
             \<or> direction t = SHORT \<and> low c \<le> takeProfit t) \<longrightarrow>
        checkExitConditions sim c t = None)
   \<and> ((\<forall>b \<in> set pre. checkExitConditions sim b t = None)
       \<and> checkExitConditions sim c t = Some ec \<longrightarrow>
        exitLoop fl sim t (pre @ c # post) = closeTrade fl sim t (price ec) (openTime c) (reason ec)
        \<and> exitPrice (exitLoop fl sim t (pre @ c # post)) = Some (price ec)
        \<and> exitReason (exitLoop fl sim t (pre @ c # post)) = Some (reason ec)
        \<and> exitTime (exitLoop fl sim t (pre @ c # post)) = Some (openTime c))"
proof -
  have time: "shouldCloseByTime (entryTime t) (openTime c) (maxHours sim)
     = (maxHours sim \<le> of_int (getHoursDifference (entryTime t) (openTime c)))"
    by (simp add: shouldCloseByTime_def)
  have loop: "exitLoop fl sim t (pre @ c # post) = closeTrade fl sim t (price ec) (openTime c) (reason ec)
        \<and> exitPrice (exitLoop fl sim t (pre @ c # post)) = Some (price ec)
        \<and> exitReason (exitLoop fl sim t (pre @ c # post)) = Some (reason ec)
        \<and> exitTime (exitLoop fl sim t (pre @ c # post)) = Some (openTime c)"
    if "(\<forall>b \<in> set pre. checkExitConditions sim b t = None)
       \<and> checkExitConditions sim c t = Some ec"
    using that by (simp add: exitLoop_first closeTrade_fields)
  show ?thesis
    using time loop checkExitConditions_TIME [of t c sim] checkExitConditions_SL [of t c sim]
      checkExitConditions_TP [of t c sim] checkExitConditions_None [of t c sim]
    by blast
qed

theorem C2_exit_priority_witness:
  "checkExitConditions exSim (bar 100800000 100 110 90 103) (openTrade exact exSim exLong)
     = Some \<lparr> price = 103, reason = ''TIME'' \<rparr>
   \<and> \<not> shouldCloseByTime 86400000 90000000 4
   \<and> checkExitConditions exSim (bar 90000000 100 110 90 103) (openTrade exact exSim exLong)
     = Some \<lparr> price = 98, reason = ''SL'' \<rparr>
   \<and> checkExitConditions exSim (bar 90000000 100 110 99 103) (openTrade exact exSim exLong)
     = Some \<lparr> price = 104, reason = ''TP'' \<rparr>
   \<and> checkExitConditions exSim (bar 90000000 100 101 99 100) (openTrade exact exSim exLong) = None
   \<and> exitLoop exact exSim (openTrade exact exSim exLong)
       ([bar 90000000 100 101 99 100] @ bar 93600000 100 110 90 103 # [bar 97200000 1 1 1 1])
     = closeTrade exact exSim (openTrade exact exSim exLong) 98 93600000 ''SL''"
  using
    C2_exit_priority [of "openTrade exact exSim exLong" "bar 100800000 100 110 90 103" exSim "[]"
       "\<lparr> price = 103, reason = ''TIME'' \<rparr>" exact "[]"]
    C2_exit_priority [of "openTrade exact exSim exLong" "bar 90000000 100 110 90 103" exSim "[]"
       "\<lparr> price = 98, reason = ''SL'' \<rparr>" exact "[]"]
    C2_exit_priority [of "openTrade exact exSim exLong" "bar 90000000 100 110 99 103" exSim "[]"
       "\<lparr> price = 104, reason = ''TP'' \<rparr>" exact "[]"]
    C2_exit_priority [of "openTrade exact exSim exLong" "bar 93600000 100 110 90 103" exSim
       "[bar 90000000 100 101 99 100]" "\<lparr> price = 98, reason = ''SL'' \<rparr>" exact
       "[bar 97200000 1 1 1 1]"]
  by (simp add: ex_defs sim_defs)

section \<open>Results and balances\<close>

lemma mathRound_nearest:
  "of_int (mathRound x) - 1 / 2 \<le> x \<and> x < of_int (mathRound x) + 1 / 2"
proof -
  have "of_int \<lfloor>x + 1 / 2\<rfloor> \<le> x + 1 / 2" and "x + 1 / 2 < of_int \<lfloor>x + 1 / 2\<rfloor> + 1"
    by linarith+
  then show ?thesis unfolding mathRound_def by linarith
qed

lemma roundTo_exact_nearest:
  "roundTo exact x 2 = of_int \<lfloor>x * 100 + 1 / 2\<rfloor> / 100
   \<and> roundTo exact x 2 - 1 / 200 \<le> x \<and> x < roundTo exact x 2 + 1 / 200"
proof -
  have eq: "roundTo exact x 2 = of_int (mathRound (x * 100)) / 100"
    by (simp add: roundTo_def exact_def)
  from mathRound_nearest [of "x * 100"]
  have "of_int (mathRound (x * 100)) / 100 - 1 / 200 \<le> x"
    and "x < of_int (mathRound (x * 100)) / 100 + 1 / 200"
    by (simp_all add: field_simps)
  with eq show ?thesis by (simp add: mathRound_def)
qed

text \<open>
  Claim C4. A closed trade has an exit price \<open>x\<close>. Its price move in percent is
  \<open>(x - entry) / entry * 100\<close> for LONG and \<open>(entry - x) / entry * 100\<close> for SHORT,
  each operation a floating-point one; its \<open>resultUSD\<close> is that percentage divided by
  100, times the balance the simulator held at entry, times the leverage, and its
  \<open>resultPercent\<close> is the percentage times the leverage, both rounded to 2 decimals:
  multiplied by 100, rounded to the nearest integer (a tie going up) and divided by 100.
  The entry price and the leverage are non-zero, so that the quotients are those of
  JavaScript.
\<close>

theorem C4_trade_result:
  assumes run: "simulateTradeSilent fl sim sg cs = Inr (t, sim')"
    and nz: "sentryPrice sg \<noteq> 0" "leverage sim \<noteq> 0"
  shows "\<exists>x. exitPrice t = Some x
     \<and> entryPrice t = sentryPrice sg \<and> direction t = sdirection sg
     \<and> calculateTradeResultPercent fl (entryPrice t) x LONG
          = fl (fl (fl (x - entryPrice t) / entryPrice t) * 100)
     \<and> calculateTradeResultPercent fl (entryPrice t) x SHORT
          = fl (fl (fl (entryPrice t - x) / entryPrice t) * 100)
     \<and> calculateTradeResultPercent exact (entryPrice t) x LONG
          = (x - entryPrice t) / entryPrice t * 100
     \<and> calculateTradeResultPercent exact (entryPrice t) x SHORT
          = (entryPrice t - x) / entryPrice t * 100
     \<and> resultUSD t
          = fl (of_int \<lfloor>fl (fl (fl (fl
                  (calculateTradeResultPercent fl (entryPrice t) x (direction t) / 100)
                    * currentBalance sim) * leverage sim) * 100) + 1 / 2\<rfloor> / 100)
     \<and> resultPercent t
          = fl (of_int \<lfloor>fl (fl
                  (calculateTradeResultPercent fl (entryPrice t) x (direction t)
                    * leverage sim) * 100) + 1 / 2\<rfloor> / 100)"
proof -
  from simulateTradeSilent_Inr [OF run]
  obtain p tm r where t: "t = closeTrade fl sim (openTrade fl sim sg) p tm r"
    by blast
  show ?thesis
    unfolding t
    by (simp add: closeTrade_fields closeTrade_result openTrade_fields
          calculateTradeResultPercent_def roundTo_def mathRound_def exact_def)
qed

lemma simulateTradeSilent_result:
  "cs \<noteq> [] \<Longrightarrow>
   simulateTradeSilent fl sim sg cs =
     (let t = (if falsy (exitPrice (exitLoop fl sim (openTrade fl sim sg) cs))
               then closeTrade fl sim (exitLoop fl sim (openTrade fl sim sg) cs)
                      (close (last cs)) (openTime (last cs)) ''END_OF_DAY''
               else exitLoop fl sim (openTrade fl sim sg) cs)
      in Inr (t, snd (settle fl sim sg t)))"
  by (simp add: simulateTradeSilent_unfold settle_def Let_def)

lemma ex_fields:
  "currentBalance exSim = 100" "currentBalance exSim50 = 201 / 4"
  "currentBalance exSim1002 = binary64 (501 / 5)"
  "leverage exSim = 5" "leverage exSim50 = 5" "leverage exSim1002 = 5"
  "maxHours exSim = 4" "maxHours exSim50 = 4" "maxHours exSim1002 = 4"
  "stopLossPercent exSim = 10" "stopLossPercent exSim50 = 10" "stopLossPercent exSim1002 = 10"
  "takeProfitPercent exSim = 20" "takeProfitPercent exSim50 = 20"
  "takeProfitPercent exSim1002 = 20"
  "sentryPrice exLong = 100" "sdirection exLong = LONG" "date exLong = 1"
  "openTime (candle exLong) = 86400000"
  "sentryPrice exShort = 100" "sdirection exShort = SHORT" "date exShort = 2"
  "openTime (candle exShort) = 172800000"
  by (simp_all add: ex_defs)

lemmas run_eval = simulateTradeSilent_result Let_def checkExitConditions_def
  shouldCloseByTime_def getHoursDifference_def openTrade_fields closeTrade_fields falsy_def
  settle_snd ex_fields bar_def calculateStopLoss_def calculateTakeProfit_def binary64_eval

lemmas result_eval = closeTrade_result closeTrade_fields settle_snd openTrade_fields ex_fields
  calculateTradeResultPercent_def binary64_eval

lemma run50:
  "simulateTradeSilent binary64 exSim50 exLong [bar 90000000 100 101 97 98]
     = Inr (closeTrade binary64 exSim50 (openTrade binary64 exSim50 exLong) 98 90000000 ''SL'',
            snd (settle binary64 exSim50 exLong
              (closeTrade binary64 exSim50 (openTrade binary64 exSim50 exLong) 98 90000000 ''SL'')))"
  by (simp add: run_eval)

lemma result50:
  "resultUSD (closeTrade binary64 exSim50 (openTrade binary64 exSim50 exLong) 98 90000000 ''SL'')
     = binary64 (- 503 / 100)"
  "resultPercent (closeTrade binary64 exSim50 (openTrade binary64 exSim50 exLong) 98 90000000 ''SL'')
     = - 10"
  "currentBalance (snd (settle binary64 exSim50 exLong
     (closeTrade binary64 exSim50 (openTrade binary64 exSim50 exLong) 98 90000000 ''SL'')))
     = binary64 (2261 / 50)"
  "resultUSD (closeTrade exact exSim50 (openTrade exact exSim50 exLong) 98 90000000 ''SL'')
     = - 251 / 50"
  by (simp_all add: result_eval exact_def)

text \<open>
  In doubles: with the capital 50.25 a stop-loss exit at 98 gives the result \<open>-5.03\<close>
  and the balance 45.22, the product \<open>-5.025\<close> of exact arithmetic being a little
  lower as a double; exact arithmetic gives \<open>-5.02\<close>.
\<close>

theorem C4_trade_result_witness:
  "simulateTradeSilent binary64 exSim50 exLong [bar 90000000 100 101 97 98]
     = Inr (closeTrade binary64 exSim50 (openTrade binary64 exSim50 exLong) 98 90000000 ''SL'',
            snd (settle binary64 exSim50 exLong
              (closeTrade binary64 exSim50 (openTrade binary64 exSim50 exLong) 98 90000000 ''SL'')))
   \<and> exitPrice (closeTrade binary64 exSim50 (openTrade binary64 exSim50 exLong)
         98 90000000 ''SL'') = Some 98
   \<and> calculateTradeResultPercent binary64 100 98 LONG = - 2
   \<and> resultUSD (closeTrade binary64 exSim50 (openTrade binary64 exSim50 exLong) 98 90000000 ''SL'')
       = binary64 (- 503 / 100)
   \<and> resultPercent (closeTrade binary64 exSim50 (openTrade binary64 exSim50 exLong)
         98 90000000 ''SL'') = - 10
   \<and> currentBalance (snd (settle binary64 exSim50 exLong
         (closeTrade binary64 exSim50 (openTrade binary64 exSim50 exLong) 98 90000000 ''SL'')))
       = binary64 (2261 / 50)
   \<and> resultUSD (closeTrade exact exSim50 (openTrade exact exSim50 exLong) 98 90000000 ''SL'')
       = - 251 / 50"
proof -
  have nz: "sentryPrice exLong \<noteq> 0" "leverage exSim50 \<noteq> 0"
    by (simp_all add: ex_defs)
  have pp: "calculateTradeResultPercent binary64 100 98 LONG = - 2"
    by (simp add: calculateTradeResultPercent_def binary64_eval)
  from C4_trade_result [OF run50 nz]
  have "exitPrice (closeTrade binary64 exSim50 (openTrade binary64 exSim50 exLong)
                98 90000000 ''SL'') = Some 98"
    by (simp add: closeTrade_fields)
  with run50 result50 pp show ?thesis
    by simp
qed










section \<open>The breakout strategy\<close>

lemma addCandle_keys:
  "fst ` set (addCandle g acc c) = insert (g (openTime c)) (fst ` set acc)"
proof (cases "map_of acc (g (openTime c))")
  case None
  then show ?thesis by (simp add: addCandle_def)
next
  case (Some xs)
  then have "(g (openTime c), xs) \<in> set acc"
    by (rule map_of_SomeD)
  then have "g (openTime c) \<in> fst ` set acc"
    by force
  moreover have "fst ` set (map (\<lambda>(k, v). if k = g (openTime c) then (k, v @ [c]) else (k, v)) acc)
      = fst ` set acc"
    by (force simp: image_iff split: prod.splits if_splits)
  ultimately show ?thesis using Some by (auto simp: addCandle_def)
qed

lemma foldl_addCandle_keys:
  "fst ` set (foldl (addCandle g) acc cs) = fst ` set acc \<union> (\<lambda>c. g (openTime c)) ` set cs"
  by (induction cs arbitrary: acc) (auto simp: addCandle_keys)

lemma groupCandlesByDay_keys:
  "set (map fst (groupCandlesByDay g cs)) = (\<lambda>c. g (openTime c)) ` set cs"
  using foldl_addCandle_keys [of g "[]" cs] by (simp add: groupCandlesByDay_def)

lemma addCandle_nonempty:
  "\<forall>p \<in> set acc. snd p \<noteq> [] \<Longrightarrow> \<forall>p \<in> set (addCandle g acc c). snd p \<noteq> []"
  by (auto simp: addCandle_def Let_def split: option.splits if_splits)

lemma foldl_addCandle_nonempty:
  "\<forall>p \<in> set acc. snd p \<noteq> [] \<Longrightarrow> \<forall>p \<in> set (foldl (addCandle g) acc cs). snd p \<noteq> []"
proof (induction cs arbitrary: acc)
  case Nil
  then show ?case by simp
next
  case (Cons c cs)
  from Cons.prems have "\<forall>p \<in> set (addCandle g acc c). snd p \<noteq> []"
    by (rule addCandle_nonempty)
  from Cons.IH [OF this] show ?case by simp
qed

lemma groupCandlesByDay_nonempty:
  "(d, xs) \<in> set (groupCandlesByDay g cs) \<Longrightarrow> xs \<noteq> []"
  using foldl_addCandle_nonempty [of "[]" g cs] by (force simp: groupCandlesByDay_def)

lemma sort_Cons_Min:
  fixes xs :: "'a::linorder list"
  assumes "xs \<noteq> []"
  shows "\<exists>ys. sort xs = Min (set xs) # ys"
proof -
  from assms have "sort xs \<noteq> []" by (metis length_sort length_0_conv)
  then obtain y ys where s: "sort xs = y # ys" by (cases "sort xs") auto
  have "sorted (sort xs)" by simp
  then have "sorted (y # ys)" using s by simp
  then have le: "\<forall>z \<in> set (y # ys). y \<le> z" by auto
  have "set (sort xs) = set xs" by simp
  then have set: "set (y # ys) = set xs" using s by simp
  have "Min (set xs) = y"
  proof (rule Min_eqI)
    show "finite (set xs)" by simp
    show "\<And>z. z \<in> set xs \<Longrightarrow> y \<le> z" using le set by blast
    show "y \<in> set xs" using set by auto
  qed
  with s show ?thesis by simp
qed

lemma first_day_levels:
  assumes "cs \<noteq> []"
  shows "\<exists>lv. map_of (calculateDailyLevels g cs) (Min ((\<lambda>c. g (openTime c)) ` set cs)) = Some lv
           \<and> previousHigh lv = None \<and> previousLow lv = None"
proof -
  let ?keys = "map fst (groupCandlesByDay g cs)"
  have keys: "set ?keys = (\<lambda>c. g (openTime c)) ` set cs"
    by (rule groupCandlesByDay_keys)
  with assms have "?keys \<noteq> []" by auto
  from sort_Cons_Min [OF this] obtain ys where "sort ?keys = Min (set ?keys) # ys" by blast
  then show ?thesis
    unfolding keys by (simp add: calculateDailyLevels_def Let_def)
qed

lemma shouldOpenTrade_first_day:
  assumes "cs \<noteq> []"
  shows "shouldOpenTrade (calculateDailyLevels g cs) c (Min ((\<lambda>c. g (openTime c)) ` set cs)) tt = None"
  using first_day_levels [OF assms, of g]
  by (auto simp: shouldOpenTrade_def falsy_def)

lemma shouldOpenTrade_Some:
  assumes "shouldOpenTrade L c d tt = Some s"
  shows "date s = d \<and> candle s = c \<and> sentryPrice s = close c \<and> tt = []"
  using assms
  by (auto simp: shouldOpenTrade_def detectBreakout_def split: if_splits option.splits)

lemma processLoop_snoc:
  "processLoop L g (xs @ [c]) = processStep L g (processLoop L g xs) c"
  by (simp add: processLoop_def)

lemma processLoop_Nil: "processLoop L g [] = ([], Map.empty)"
  by (simp add: processLoop_def)

lemma processStep_cases:
  "processStep L g st c = st
   \<or> (snd st (g (openTime c)) = None
      \<and> (\<exists>s. shouldOpenTrade L c (g (openTime c)) [] = Some s
            \<and> processStep L g st c = (fst st @ [s], (snd st)(g (openTime c) \<mapsto> s))))"
  by (cases st) (auto simp: processStep_def Let_def split: option.splits)

lemma processLoop_invariant:
  "dom (snd (processLoop L g cs)) = date ` set (fst (processLoop L g cs))
   \<and> distinct (map date (fst (processLoop L g cs)))
   \<and> subseq (map candle (fst (processLoop L g cs))) cs
   \<and> (\<forall>s \<in> set (fst (processLoop L g cs)).
        \<exists>c \<in> set cs. shouldOpenTrade L c (g (openTime c)) [] = Some s)"
proof (induction cs rule: rev_induct)
  case Nil
  then show ?case by (simp add: processLoop_Nil)
next
  case (snoc c cs)
  let ?st = "processLoop L g cs"
  from processStep_cases [of L g ?st c]
  show ?case
  proof
    assume same: "processStep L g ?st c = ?st"
    have "subseq (map candle (fst ?st)) (cs @ [c])"
      using snoc.IH by (simp add: subseq_rev_drop_many)
    with same snoc.IH show ?thesis
      by (auto simp: processLoop_snoc)
  next
    assume "snd ?st (g (openTime c)) = None
      \<and> (\<exists>s. shouldOpenTrade L c (g (openTime c)) [] = Some s
            \<and> processStep L g ?st c = (fst ?st @ [s], (snd ?st)(g (openTime c) \<mapsto> s)))"
    then obtain s where none: "snd ?st (g (openTime c)) = None"
      and s: "shouldOpenTrade L c (g (openTime c)) [] = Some s"
      and step: "processStep L g ?st c = (fst ?st @ [s], (snd ?st)(g (openTime c) \<mapsto> s))"
      by blast
    from shouldOpenTrade_Some [OF s] have ds: "date s = g (openTime c)" and cs': "candle s = c"
      by simp_all
    from none snoc.IH have fresh: "date s \<notin> date ` set (fst ?st)"
      unfolding ds by (metis domIff)
    have a: "dom (snd (processLoop L g (cs @ [c]))) = date ` set (fst (processLoop L g (cs @ [c])))"
      using snoc.IH by (simp add: processLoop_snoc step ds)
    have b: "distinct (map date (fst (processLoop L g (cs @ [c]))))"
      using snoc.IH fresh by (simp add: processLoop_snoc step)
    have c: "subseq (map candle (fst (processLoop L g (cs @ [c])))) (cs @ [c])"
      using snoc.IH by (simp add: processLoop_snoc step cs')
    have d: "\<forall>s \<in> set (fst (processLoop L g (cs @ [c]))).
        \<exists>c' \<in> set (cs @ [c]). shouldOpenTrade L c' (g (openTime c')) [] = Some s"
      using snoc.IH s by (auto simp: processLoop_snoc step)
    from a b c d show ?thesis by blast
  qed
qed

lemma subseq_set_subset: "subseq xs ys \<Longrightarrow> set xs \<subseteq> set ys"
  by (induction rule: list_emb.induct) auto

lemma sorted_wrt_subseq:
  assumes "subseq xs ys" "sorted_wrt P ys"
  shows "sorted_wrt P xs"
  using assms
proof (induction rule: list_emb.induct)
  case (list_emb_Nil ys)
  then show ?case by simp
next
  case (list_emb_Cons xs ys y)
  then show ?case by simp
next
  case (list_emb_Cons2 x y xs ys)
  from list_emb_Cons2.hyps have "set xs \<subseteq> set ys"
    by (simp add: subseq_set_subset)
  with list_emb_Cons2 show ?case by auto
qed

lemma processStep_suppressed:
  assumes "dom (snd st) = date ` set (fst st)"
    and "\<exists>s \<in> set (fst st). date s = g (openTime c)"
  shows "processStep L g st c = st"
proof -
  from assms have "g (openTime c) \<in> dom (snd st)" by force
  then obtain s where "snd st (g (openTime c)) = Some s" by blast
  then show ?thesis by (cases st) (simp add: processStep_def Let_def)
qed

lemma processCandles_signal:
  assumes "s \<in> set (processCandles g cs)"
  shows "\<exists>c \<in> set cs. shouldOpenTrade (calculateDailyLevels g cs) c (g (openTime c)) [] = Some s"
  using assms processLoop_invariant [of "calculateDailyLevels g cs" g cs]
  by (simp add: processCandles_def)

lemma processCandles_not_first_day:
  assumes "cs \<noteq> []" "s \<in> set (processCandles g cs)"
  shows "date s \<noteq> Min ((\<lambda>c. g (openTime c)) ` set cs)"
proof
  assume eq: "date s = Min ((\<lambda>c. g (openTime c)) ` set cs)"
  from processCandles_signal [OF assms(2)] obtain c
    where c: "shouldOpenTrade (calculateDailyLevels g cs) c (g (openTime c)) [] = Some s"
    by blast
  from shouldOpenTrade_Some [OF c] eq
  have "g (openTime c) = Min ((\<lambda>c. g (openTime c)) ` set cs)" by simp
  with c shouldOpenTrade_first_day [OF assms(1), of g c "[]"] show False by simp
qed

text \<open>
  Claim C6. The signals \<open>processCandles\<close> emits have pairwise different dates, each the
  date of its own bar, a bar of the input. No signal has the earliest date of the input,
  which is the date of the first bar when no bar has an earlier date. The signals are in
  the order of their bars, so chronological when the bars are. Once the loop holds a signal
  of a date, a further bar of that date leaves the state of the loop unchanged, whatever
  breakout that bar shows.
\<close>

theorem C6_one_signal_per_day:
  "distinct (map date (processCandles g cs))
   \<and> (\<forall>s \<in> set (processCandles g cs). date s = g (openTime (candle s)) \<and> candle s \<in> set cs)
   \<and> (cs \<noteq> [] \<longrightarrow>
        (\<forall>s \<in> set (processCandles g cs). date s \<noteq> Min ((\<lambda>c. g (openTime c)) ` set cs)))
   \<and> (cs \<noteq> [] \<and> (\<forall>c \<in> set cs. g (openTime (hd cs)) \<le> g (openTime c)) \<longrightarrow>
        (\<forall>s \<in> set (processCandles g cs). date s \<noteq> g (openTime (hd cs))))
   \<and> subseq (map candle (processCandles g cs)) cs
   \<and> (sorted_wrt (\<lambda>a b. openTime a < openTime b) cs \<longrightarrow>
        sorted_wrt (\<lambda>s t. openTime (candle s) < openTime (candle t)) (processCandles g cs))
   \<and> ((\<exists>s \<in> set (fst (processLoop L g xs)). date s = g (openTime c)) \<longrightarrow>
        processLoop L g (xs @ [c]) = processLoop L g xs)"
proof -
  let ?L = "calculateDailyLevels g cs"
  note inv = processLoop_invariant [of ?L g cs]
  have unique: "distinct (map date (processCandles g cs))"
    using inv by (simp add: processCandles_def)
  have origin: "\<forall>s \<in> set (processCandles g cs). date s = g (openTime (candle s)) \<and> candle s \<in> set cs"
  proof
    fix s assume "s \<in> set (processCandles g cs)"
    from processCandles_signal [OF this] obtain c
      where "c \<in> set cs" "shouldOpenTrade ?L c (g (openTime c)) [] = Some s" by blast
    with shouldOpenTrade_Some [of ?L c "g (openTime c)" "[]" s]
    show "date s = g (openTime (candle s)) \<and> candle s \<in> set cs" by simp
  qed
  have first: "cs \<noteq> [] \<longrightarrow>
      (\<forall>s \<in> set (processCandles g cs). date s \<noteq> Min ((\<lambda>c. g (openTime c)) ` set cs))"
    using processCandles_not_first_day [of cs _ g] by blast
  have first_hd: "cs \<noteq> [] \<and> (\<forall>c \<in> set cs. g (openTime (hd cs)) \<le> g (openTime c)) \<longrightarrow>
      (\<forall>s \<in> set (processCandles g cs). date s \<noteq> g (openTime (hd cs)))"
  proof (rule impI)
    assume h: "cs \<noteq> [] \<and> (\<forall>c \<in> set cs. g (openTime (hd cs)) \<le> g (openTime c))"
    have "Min ((\<lambda>c. g (openTime c)) ` set cs) = g (openTime (hd cs))"
    proof (rule Min_eqI)
      show "finite ((\<lambda>c. g (openTime c)) ` set cs)" by simp
      show "\<And>y. y \<in> (\<lambda>c. g (openTime c)) ` set cs \<Longrightarrow> g (openTime (hd cs)) \<le> y"
        using h by auto
      show "g (openTime (hd cs)) \<in> (\<lambda>c. g (openTime c)) ` set cs"
        using h by auto
    qed
    with first h
    show "\<forall>s \<in> set (processCandles g cs). date s \<noteq> g (openTime (hd cs))" by simp
  qed
  have order: "subseq (map candle (processCandles g cs)) cs"
    using inv by (simp add: processCandles_def)
  have chrono: "sorted_wrt (\<lambda>a b. openTime a < openTime b) cs \<longrightarrow>
      sorted_wrt (\<lambda>s t. openTime (candle s) < openTime (candle t)) (processCandles g cs)"
  proof (rule impI)
    assume "sorted_wrt (\<lambda>a b. openTime a < openTime b) cs"
    from sorted_wrt_subseq [OF order this]
    show "sorted_wrt (\<lambda>s t. openTime (candle s) < openTime (candle t)) (processCandles g cs)"
      by (simp add: sorted_wrt_map)
  qed
  have suppress: "(\<exists>s \<in> set (fst (processLoop L g xs)). date s = g (openTime c)) \<longrightarrow>
      processLoop L g (xs @ [c]) = processLoop L g xs"
  proof (rule impI)
    assume seen: "\<exists>s \<in> set (fst (processLoop L g xs)). date s = g (openTime c)"
    have "dom (snd (processLoop L g xs)) = date ` set (fst (processLoop L g xs))"
      using processLoop_invariant [of L g xs] by (rule conjunct1)
    then have "processStep L g (processLoop L g xs) c = processLoop L g xs"
      using seen by (rule processStep_suppressed)
    then show "processLoop L g (xs @ [c]) = processLoop L g xs"
      by (simp add: processLoop_snoc)
  qed
  show ?thesis
    by (intro conjI) (fact unique origin first first_hd order chrono suppress)+
qed


lemmas strategy_defs = processCandles_def processLoop_def processStep_def
  calculateDailyLevels_def groupCandlesByDay_def addCandle_def dayCandles_def
  shouldOpenTrade_def detectBreakout_def falsy_def toNumber_def Let_def

lemma exCandles_signals:
  "processCandles exDay exCandles
     = [\<lparr> date = 1, stype = BREAKOUT_HIGH, sdirection = LONG, sentryPrice = 14,
          dailyHigh = 12, dailyLow = 9, sreason = Some ''Body above previous high'',
          candle = bar 86400000 13 15 13 14 \<rparr>]"
  by (simp add: exCandles_def exDay_def bar_def strategy_defs)

theorem C6_one_signal_per_day_witness:
  "processCandles exDay exCandles
     = [\<lparr> date = 1, stype = BREAKOUT_HIGH, sdirection = LONG, sentryPrice = 14,
          dailyHigh = 12, dailyLow = 9, sreason = Some ''Body above previous high'',
          candle = bar 86400000 13 15 13 14 \<rparr>]
   \<and> detectBreakout (bar 90000000 8 8 6 7) (Some 12) (Some 9)
     = Some \<lparr> btype = BREAKOUT_LOW, bdirection = Some SHORT,
              breason = Some ''Body below previous low'', bentryPrice = 7 \<rparr>
   \<and> processLoop (calculateDailyLevels exDay exCandles) exDay
        ([bar 0 10 12 9 11, bar 86400000 13 15 13 14] @ [bar 90000000 8 8 6 7])
     = processLoop (calculateDailyLevels exDay exCandles) exDay
        [bar 0 10 12 9 11, bar 86400000 13 15 13 14]"
proof -
  have lv: "calculateDailyLevels exDay exCandles
     = [(0, \<lparr> currentHigh = 12, currentLow = 9, previousHigh = None, previousLow = None,
               candles = [bar 0 10 12 9 11] \<rparr>),
        (1, \<lparr> currentHigh = 15, currentLow = 6, previousHigh = Some 12, previousLow = Some 9,
               candles = [bar 86400000 13 15 13 14, bar 90000000 8 8 6 7] \<rparr>)]"
    by (simp add: exCandles_def exDay_def bar_def calculateDailyLevels_def
          groupCandlesByDay_def addCandle_def dayCandles_def Let_def)
  have seen: "\<exists>s \<in> set (fst (processLoop (calculateDailyLevels exDay exCandles) exDay
        [bar 0 10 12 9 11, bar 86400000 13 15 13 14])). date s = exDay (openTime (bar 90000000 8 8 6 7))"
    unfolding lv
    by (simp add: exDay_def bar_def processLoop_def processStep_def shouldOpenTrade_def
          detectBreakout_def falsy_def toNumber_def Let_def)
  have det: "detectBreakout (bar 90000000 8 8 6 7) (Some 12) (Some 9)
     = Some \<lparr> btype = BREAKOUT_LOW, bdirection = Some SHORT,
              breason = Some ''Body below previous low'', bentryPrice = 7 \<rparr>"
    by (simp add: bar_def detectBreakout_def falsy_def toNumber_def)
  from C6_one_signal_per_day [of exDay exCandles "calculateDailyLevels exDay exCandles"
      "[bar 0 10 12 9 11, bar 86400000 13 15 13 14]" "bar 90000000 8 8 6 7"] seen
  have "processLoop (calculateDailyLevels exDay exCandles) exDay
        ([bar 0 10 12 9 11, bar 86400000 13 15 13 14] @ [bar 90000000 8 8 6 7])
     = processLoop (calculateDailyLevels exDay exCandles) exDay
        [bar 0 10 12 9 11, bar 86400000 13 15 13 14]"
    by blast
  with exCandles_signals det show ?thesis by simp
qed

lemma detectBreakout_high:
  assumes "H \<noteq> 0" "L \<noteq> 0" "H < high c"
  shows "detectBreakout c (Some H) (Some L) =
     Some \<lparr> btype = BREAKOUT_HIGH,
            bdirection = (if H < open c \<and> H < close c then Some LONG
                          else if open c < H \<and> close c < H then Some SHORT else None),
            breason = (if H < open c \<and> H < close c then Some ''Body above previous high''
                       else if open c < H \<and> close c < H
                       then Some ''Body below previous high, wick touched above'' else None),
            bentryPrice = close c \<rparr>"
  using assms by (simp add: detectBreakout_def falsy_def toNumber_def)

lemma detectBreakout_low:
  assumes "H \<noteq> 0" "L \<noteq> 0" "\<not> H < high c" "low c < L"
  shows "detectBreakout c (Some H) (Some L) =
     Some \<lparr> btype = BREAKOUT_LOW,
            bdirection = (if open c < L \<and> close c < L then Some SHORT
                          else if L < open c \<and> L < close c then Some LONG else None),
            breason = (if open c < L \<and> close c < L then Some ''Body below previous low''
                       else if L < open c \<and> L < close c
                       then Some ''Body above previous low, wick touched below'' else None),
            bentryPrice = close c \<rparr>"
  using assms by (simp add: detectBreakout_def falsy_def toNumber_def)

lemma shouldOpenTrade_at_level:
  assumes "map_of Lv d = Some dd" "previousHigh dd = Some H" "previousLow dd = Some L"
    and "H < high c \<and> (open c = H \<or> close c = H)
         \<or> \<not> H < high c \<and> low c < L \<and> (open c = L \<or> close c = L)"
  shows "shouldOpenTrade Lv c d tt = None"
  using assms
  by (auto simp: shouldOpenTrade_def detectBreakout_def falsy_def toNumber_def)

text \<open>The levels of the previous day are the largest high and the smallest low of that
  day's candles, so they are positive whenever every high and low of the input is.\<close>

lemma fold_max_ge: "(x::rat) \<le> fold max xs x"
proof (induction xs arbitrary: x)
  case Nil
  then show ?case by simp
next
  case (Cons y ys)
  have "x \<le> max y x" by simp
  also have "max y x \<le> fold max ys (max y x)" by (rule Cons.IH)
  finally show ?case by simp
qed

lemma fold_min_in: "fold min xs (x::rat) \<in> insert x (set xs)"
proof (induction xs arbitrary: x)
  case Nil
  then show ?case by simp
next
  case (Cons y ys)
  from Cons.IH [of "min y x"] show ?case
    by (auto simp: min_def split: if_splits)
qed

lemma mathMax_pos:
  assumes "xs \<noteq> []" "\<forall>x \<in> set xs. 0 < x"
  shows "0 < mathMax xs"
proof -
  from assms(1) obtain y ys where xs: "xs = y # ys" by (cases xs) auto
  with assms(2) have "0 < y" by simp
  also have "y \<le> fold max ys y" by (rule fold_max_ge)
  finally show ?thesis by (simp add: xs)
qed

lemma mathMin_pos:
  assumes "xs \<noteq> []" "\<forall>x \<in> set xs. 0 < x"
  shows "0 < mathMin xs"
proof -
  from assms(1) obtain y ys where xs: "xs = y # ys" by (cases xs) auto
  have "fold min ys y \<in> set xs" using fold_min_in [of ys y] by (simp add: xs)
  with assms(2) have "0 < fold min ys y" by blast
  then show ?thesis by (simp add: xs)
qed

lemma addCandle_members:
  "\<forall>p \<in> set acc. set (snd p) \<subseteq> A \<Longrightarrow> c \<in> A \<Longrightarrow>
   \<forall>p \<in> set (addCandle g acc c). set (snd p) \<subseteq> A"
proof (intro ballI)
  fix p
  assume acc: "\<forall>p \<in> set acc. set (snd p) \<subseteq> A" and c: "c \<in> A"
    and p: "p \<in> set (addCandle g acc c)"
  show "set (snd p) \<subseteq> A"
  proof (cases "map_of acc (g (openTime c))")
    case None
    with p have "p \<in> set acc \<or> p = (g (openTime c), [c])"
      by (auto simp: addCandle_def Let_def)
    with acc c show ?thesis by auto
  next
    case (Some v)
    with p obtain q where q: "q \<in> set acc"
      and pq: "p = (fst q, snd q @ [c]) \<or> p = q"
      by (auto simp: addCandle_def Let_def split: if_splits)
    from acc q have "set (snd q) \<subseteq> A" by blast
    with pq c show ?thesis by auto
  qed
qed

lemma foldl_addCandle_members:
  "\<forall>p \<in> set acc. set (snd p) \<subseteq> A \<Longrightarrow> set cs \<subseteq> A \<Longrightarrow>
   \<forall>p \<in> set (foldl (addCandle g) acc cs). set (snd p) \<subseteq> A"
proof (induction cs arbitrary: acc)
  case Nil
  then show ?case by simp
next
  case (Cons c cs)
  from Cons.prems have "c \<in> A" by simp
  with Cons.prems(1) have "\<forall>p \<in> set (addCandle g acc c). set (snd p) \<subseteq> A"
    by (rule addCandle_members)
  from Cons.IH [OF this] Cons.prems(2) show ?case by simp
qed

lemma dayCandles_of_key:
  assumes "d \<in> set (map fst (groupCandlesByDay g cs))"
  shows "dayCandles (groupCandlesByDay g cs) d \<noteq> []
         \<and> set (dayCandles (groupCandlesByDay g cs) d) \<subseteq> set cs"
proof -
  let ?G = "groupCandlesByDay g cs"
  from assms obtain v where v: "map_of ?G d = Some v"
    by (metis map_of_eq_None_iff not_Some_eq set_map)
  then have mem: "(d, v) \<in> set ?G" by (rule map_of_SomeD)
  then have "v \<noteq> []" by (rule groupCandlesByDay_nonempty)
  moreover have "set v \<subseteq> set cs"
    using foldl_addCandle_members [of "[]" "set cs" cs g] mem
    by (force simp: groupCandlesByDay_def)
  ultimately show ?thesis using v by (simp add: dayCandles_def)
qed

lemma levelsLoop_previous:
  assumes "(d, lv) \<in> set (levelsLoop G prev ds)"
  shows "(previousHigh lv = None \<and> previousLow lv = None)
     \<or> (\<exists>p \<in> set_option prev \<union> set ds.
           previousHigh lv = Some (mathMax (map high (dayCandles G p)))
           \<and> previousLow lv = Some (mathMin (map low (dayCandles G p))))"
  using assms
proof (induction ds arbitrary: prev)
  case Nil
  then show ?case by simp
next
  case (Cons a ds)
  from Cons.prems consider
    (here) "lv = \<lparr> currentHigh = mathMax (map high (dayCandles G a)),
        currentLow = mathMin (map low (dayCandles G a)),
        previousHigh =
          (case prev of None \<Rightarrow> None
           | Some previousDate \<Rightarrow> Some (mathMax (map high (dayCandles G previousDate)))),
        previousLow =
          (case prev of None \<Rightarrow> None
           | Some previousDate \<Rightarrow> Some (mathMin (map low (dayCandles G previousDate)))),
        candles = dayCandles G a \<rparr>"
    | (later) "(d, lv) \<in> set (levelsLoop G (Some a) ds)"
    by auto
  then show ?case
  proof cases
    case here
    then show ?thesis by (cases prev) auto
  next
    case later
    from Cons.IH [OF later] show ?thesis by auto
  qed
qed

lemma levels_positive:
  assumes pos: "\<forall>c \<in> set cs. 0 < high c \<and> 0 < low c"
    and lv: "map_of (calculateDailyLevels g cs) d = Some lv"
  shows "(previousHigh lv = None \<and> previousLow lv = None)
     \<or> (\<exists>H L. previousHigh lv = Some H \<and> previousLow lv = Some L \<and> 0 < H \<and> 0 < L)"
proof -
  let ?G = "groupCandlesByDay g cs"
  from lv have "(d, lv) \<in> set (levelsLoop ?G None (sort (map fst ?G)))"
    by (auto simp: calculateDailyLevels_def Let_def dest: map_of_SomeD)
  from levelsLoop_previous [OF this]
  consider (none) "previousHigh lv = None \<and> previousLow lv = None"
    | (some) p where "p \<in> set (map fst ?G)"
        "previousHigh lv = Some (mathMax (map high (dayCandles ?G p)))"
        "previousLow lv = Some (mathMin (map low (dayCandles ?G p)))"
    by auto
  then show ?thesis
  proof cases
    case none
    then show ?thesis by simp
  next
    case some
    from dayCandles_of_key [OF some(1)]
    have ne: "dayCandles ?G p \<noteq> []" and sub: "set (dayCandles ?G p) \<subseteq> set cs"
      by simp_all
    from sub pos have "\<forall>x \<in> set (map high (dayCandles ?G p)). 0 < x"
      and "\<forall>x \<in> set (map low (dayCandles ?G p)). 0 < x"
      by auto
    with ne have "0 < mathMax (map high (dayCandles ?G p))"
      and "0 < mathMin (map low (dayCandles ?G p))"
      by (simp_all add: mathMax_pos mathMin_pos)
    with some show ?thesis by simp
  qed
qed

text \<open>
  Claim C7. For reference levels that are present (neither \<open>null\<close> nor taken for missing
  by the guard \<open>!dailyHigh || !dailyLow\<close>, which a level of 0 is): when the bar's high
  exceeds the previous high, the result of \<open>detectBreakout\<close> is the high breakout, its
  direction decided by the open and the close against the previous high alone, whatever
  the bar's low and the previous low are; the low breakout is decided only when the high
  does not exceed the previous high. A bar whose open or close equals the broken level
  gives no direction, and \<open>shouldOpenTrade\<close> then gives no signal. The entry price of
  every signal is the close of its bar. The levels that \<open>calculateDailyLevels\<close> computes
  from candles with positive highs and lows are either both absent or both positive, so
  that on such candles every level the detector receives from it is present.
\<close>

theorem C7_breakout_detection:
  "(H \<noteq> 0 \<and> L \<noteq> 0 \<and> H < high c \<longrightarrow>
      detectBreakout c (Some H) (Some L) =
        Some \<lparr> btype = BREAKOUT_HIGH,
               bdirection = (if H < open c \<and> H < close c then Some LONG
                             else if open c < H \<and> close c < H then Some SHORT else None),
               breason = (if H < open c \<and> H < close c then Some ''Body above previous high''
                          else if open c < H \<and> close c < H
                          then Some ''Body below previous high, wick touched above''
                          else None),
               bentryPrice = close c \<rparr>)
   \<and> (H \<noteq> 0 \<and> L \<noteq> 0 \<and> \<not> H < high c \<and> low c < L \<longrightarrow>
      detectBreakout c (Some H) (Some L) =
        Some \<lparr> btype = BREAKOUT_LOW,
               bdirection = (if open c < L \<and> close c < L then Some SHORT
                             else if L < open c \<and> L < close c then Some LONG else None),
               breason = (if open c < L \<and> close c < L then Some ''Body below previous low''
                          else if L < open c \<and> L < close c
                          then Some ''Body above previous low, wick touched below''
                          else None),
               bentryPrice = close c \<rparr>)
   \<and> (map_of Lv d = Some dd \<and> previousHigh dd = Some H \<and> previousLow dd = Some L
       \<and> (H < high c \<and> (open c = H \<or> close c = H)
           \<or> \<not> H < high c \<and> low c < L \<and> (open c = L \<or> close c = L)) \<longrightarrow>
      shouldOpenTrade Lv c d tt = None)
   \<and> (shouldOpenTrade Lv c d tt = Some s \<longrightarrow> sentryPrice s = close c \<and> candle s = c)
   \<and> (\<forall>s \<in> set (processCandles g cs). sentryPrice s = close (candle s))
   \<and> ((\<forall>b \<in> set cs. 0 < high b \<and> 0 < low b)
       \<and> map_of (calculateDailyLevels g cs) day = Some lv \<longrightarrow>
      (previousHigh lv = None \<and> previousLow lv = None)
      \<or> (\<exists>pH pL. previousHigh lv = Some pH \<and> previousLow lv = Some pL
            \<and> 0 < pH \<and> 0 < pL))"
proof -
  have hi: "H \<noteq> 0 \<and> L \<noteq> 0 \<and> H < high c \<longrightarrow>
      detectBreakout c (Some H) (Some L) =
        Some \<lparr> btype = BREAKOUT_HIGH,
               bdirection = (if H < open c \<and> H < close c then Some LONG
                             else if open c < H \<and> close c < H then Some SHORT else None),
               breason = (if H < open c \<and> H < close c then Some ''Body above previous high''
                          else if open c < H \<and> close c < H
                          then Some ''Body below previous high, wick touched above''
                          else None),
               bentryPrice = close c \<rparr>"
    using detectBreakout_high [of H L c] by blast
  have lo: "H \<noteq> 0 \<and> L \<noteq> 0 \<and> \<not> H < high c \<and> low c < L \<longrightarrow>
      detectBreakout c (Some H) (Some L) =
        Some \<lparr> btype = BREAKOUT_LOW,
               bdirection = (if open c < L \<and> close c < L then Some SHORT
                             else if L < open c \<and> L < close c then Some LONG else None),
               breason = (if open c < L \<and> close c < L then Some ''Body below previous low''
                          else if L < open c \<and> L < close c
                          then Some ''Body above previous low, wick touched below''
                          else None),
               bentryPrice = close c \<rparr>"
    using detectBreakout_low [of H L c] by blast
  have level: "map_of Lv d = Some dd \<and> previousHigh dd = Some H \<and> previousLow dd = Some L
       \<and> (H < high c \<and> (open c = H \<or> close c = H)
           \<or> \<not> H < high c \<and> low c < L \<and> (open c = L \<or> close c = L)) \<longrightarrow>
      shouldOpenTrade Lv c d tt = None"
    using shouldOpenTrade_at_level [of Lv d dd H L c tt] by blast
  have entry: "shouldOpenTrade Lv c d tt = Some s \<longrightarrow> sentryPrice s = close c \<and> candle s = c"
    using shouldOpenTrade_Some [of Lv c d tt s] by blast
  have all: "\<forall>s \<in> set (processCandles g cs). sentryPrice s = close (candle s)"
  proof
    fix s assume "s \<in> set (processCandles g cs)"
    from processCandles_signal [OF this] obtain c'
      where "shouldOpenTrade (calculateDailyLevels g cs) c' (g (openTime c')) [] = Some s"
      by blast
    from shouldOpenTrade_Some [OF this] show "sentryPrice s = close (candle s)" by simp
  qed
  have pos: "(\<forall>b \<in> set cs. 0 < high b \<and> 0 < low b)
       \<and> map_of (calculateDailyLevels g cs) day = Some lv \<longrightarrow>
      (previousHigh lv = None \<and> previousLow lv = None)
      \<or> (\<exists>pH pL. previousHigh lv = Some pH \<and> previousLow lv = Some pL
            \<and> 0 < pH \<and> 0 < pL)"
    using levels_positive [of cs g day lv] by blast
  show ?thesis
    by (intro conjI) (fact hi lo level entry all pos)+
qed

text \<open>
  The guard: a level of 0 is taken for a missing one, and the detector answers \<open>null\<close>.
  By the last part of the theorem no such level comes from candles with positive prices.
\<close>

lemma detectBreakout_zero_level:
  "detectBreakout (bar 90000000 6 7 6 6) (Some 5) (Some 0) = None"
  by (simp add: bar_def detectBreakout_def falsy_def)

theorem C7_breakout_detection_witness:
  "detectBreakout (bar 86400000 13 15 8 14) (Some 12) (Some 9)
     = Some \<lparr> btype = BREAKOUT_HIGH, bdirection = Some LONG,
              breason = Some ''Body above previous high'', bentryPrice = 14 \<rparr>
   \<and> low (bar 86400000 13 15 8 14) < 9
   \<and> shouldOpenTrade (calculateDailyLevels exDay exCandles) (bar 86400000 12 15 8 14) 1 [] = None
   \<and> sentryPrice (hd (processCandles exDay exCandles))
       = close (candle (hd (processCandles exDay exCandles)))
   \<and> map_of (calculateDailyLevels exDay exCandles) 1
       = Some \<lparr> currentHigh = 15, currentLow = 6, previousHigh = Some 12,
                previousLow = Some 9,
                candles = [bar 86400000 13 15 13 14, bar 90000000 8 8 6 7] \<rparr>"
proof -
  let ?dd = "\<lparr> currentHigh = 15, currentLow = 6, previousHigh = Some 12, previousLow = Some 9,
               candles = [bar 86400000 13 15 13 14, bar 90000000 8 8 6 7] \<rparr>"
  have lv: "map_of (calculateDailyLevels exDay exCandles) 1 = Some ?dd"
    by (simp add: exCandles_def exDay_def bar_def calculateDailyLevels_def
          groupCandlesByDay_def addCandle_def dayCandles_def Let_def)
  note a = C7_breakout_detection [of 12 9 "bar 86400000 13 15 8 14"
         "calculateDailyLevels exDay exCandles" 1 ?dd "[]" exLong exDay exCandles 1 ?dd]
  note b = C7_breakout_detection [of 12 9 "bar 86400000 12 15 8 14"
         "calculateDailyLevels exDay exCandles" 1 ?dd "[]" exLong exDay exCandles 1 ?dd]
  have c1: "detectBreakout (bar 86400000 13 15 8 14) (Some 12) (Some 9)
     = Some \<lparr> btype = BREAKOUT_HIGH, bdirection = Some LONG,
              breason = Some ''Body above previous high'', bentryPrice = 14 \<rparr>"
    using a by (simp add: bar_def)
  have c2: "low (bar 86400000 13 15 8 14) < 9"
    by (simp add: bar_def)
  have c3: "shouldOpenTrade (calculateDailyLevels exDay exCandles)
              (bar 86400000 12 15 8 14) 1 [] = None"
    using b lv by (simp add: bar_def)
  have "hd (processCandles exDay exCandles) \<in> set (processCandles exDay exCandles)"
    by (simp add: exCandles_signals)
  with a have c4: "sentryPrice (hd (processCandles exDay exCandles))
       = close (candle (hd (processCandles exDay exCandles)))"
    by blast
  from c1 c2 c3 c4 lv show ?thesis by simp
qed

section \<open>The engine and the summary\<close>

lemma daysLoop_no_signals: "daysLoop fl cs [] st days = Inr st"
  by (induction days arbitrary: st) (simp_all add: groupSignalsByDay_def)

lemma processCandles_single_day:
  assumes "\<forall>c \<in> set cs. g (openTime c) = d"
  shows "processCandles g cs = []"
proof (cases "cs = []")
  case True
  then show ?thesis by (simp add: processCandles_def processLoop_def)
next
  case False
  then have img: "(\<lambda>c. g (openTime c)) ` set cs = {d}"
    using assms by (cases cs) auto
  have "s \<notin> set (processCandles g cs)" for s
  proof
    assume s: "s \<in> set (processCandles g cs)"
    from processCandles_not_first_day [OF False s] img have "date s \<noteq> d" by simp
    moreover from processCandles_signal [OF s] obtain c
      where "c \<in> set cs" "shouldOpenTrade (calculateDailyLevels g cs) c (g (openTime c)) [] = Some s"
      by blast
    with shouldOpenTrade_Some [of "calculateDailyLevels g cs" c "g (openTime c)" "[]" s] assms
    have "date s = d" by simp
    ultimately show False by simp
  qed
  then show ?thesis by (cases "processCandles g cs") auto
qed

text \<open>
  Claim C8, as amended. On an empty input, and on an input whose bars all have one date, no
  error is raised: the levels of an empty input are the empty mapping, no signal is
  emitted, and \<open>runBacktest\<close> returns a result with no signal and no trade, the
  statistics and daily results being those of the untouched simulator.
\<close>

theorem C8_no_insufficient_data_error:
  "calculateDailyLevels g [] = []
   \<and> ((\<forall>c \<in> set cs. g (openTime c) = d) \<longrightarrow>
        processCandles g cs = []
        \<and> runBacktest fl g sim cs
            = Inr \<lparr> totalCandles = length cs, bsignals = [], btrades = [],
                     tradingStats = getTradingStats fl sim, bdailyResults = dailyResults sim \<rparr>)"
proof -
  have empty: "calculateDailyLevels g [] = []"
    by (simp add: calculateDailyLevels_def groupCandlesByDay_def)
  have single: "(\<forall>c \<in> set cs. g (openTime c) = d) \<longrightarrow>
        processCandles g cs = []
        \<and> runBacktest fl g sim cs
            = Inr \<lparr> totalCandles = length cs, bsignals = [], btrades = [],
                     tradingStats = getTradingStats fl sim, bdailyResults = dailyResults sim \<rparr>"
  proof (rule impI)
    assume "\<forall>c \<in> set cs. g (openTime c) = d"
    then have none: "processCandles g cs = []"
      by (rule processCandles_single_day)
    then show "processCandles g cs = []
        \<and> runBacktest fl g sim cs
            = Inr \<lparr> totalCandles = length cs, bsignals = [], btrades = [],
                     tradingStats = getTradingStats fl sim, bdailyResults = dailyResults sim \<rparr>"
      by (simp add: runBacktest_def simulateAllTradesWithLogs_def daysLoop_no_signals)
  qed
  from empty single show ?thesis by (rule conjI)
qed

text \<open>
  The claim as stated fails: on the empty input and on two bars of one day
  \<open>runBacktest\<close> returns a result, not an error.
\<close>

theorem C8_counterexample:
  "runBacktest exact exDay exSim []
     = Inr \<lparr> totalCandles = 0, bsignals = [], btrades = [],
              tradingStats = getTradingStats exact exSim, bdailyResults = Map.empty \<rparr>
   \<and> calculateDailyLevels exDay [] = []
   \<and> runBacktest exact exDay exSim [bar 0 10 12 9 11, bar 3600000 11 13 10 12]
     = Inr \<lparr> totalCandles = 2, bsignals = [], btrades = [],
              tradingStats = getTradingStats exact exSim, bdailyResults = Map.empty \<rparr>"
  by (simp add: runBacktest_def simulateAllTradesWithLogs_def getAllDays_def
        groupSignalsByDay_def strategy_defs ex_defs)

theorem C8_no_insufficient_data_error_witness:
  "exDay (openTime (bar 0 10 12 9 11)) = 0 \<and> exDay (openTime (bar 3600000 11 13 10 12)) = 0
   \<and> processCandles exDay [bar 0 10 12 9 11, bar 3600000 11 13 10 12] = []
   \<and> runBacktest exact exDay exSim [bar 0 10 12 9 11, bar 3600000 11 13 10 12]
       = Inr \<lparr> totalCandles = 2, bsignals = [], btrades = [],
                tradingStats = getTradingStats exact exSim, bdailyResults = Map.empty \<rparr>"
proof -
  have day: "\<forall>c \<in> set [bar 0 10 12 9 11, bar 3600000 11 13 10 12]. exDay (openTime c) = 0"
    by (simp add: exDay_def bar_def)
  from C8_no_insufficient_data_error
         [of exDay "[bar 0 10 12 9 11, bar 3600000 11 13 10 12]" 0 exact exSim] day
  have "processCandles exDay [bar 0 10 12 9 11, bar 3600000 11 13 10 12] = []
        \<and> runBacktest exact exDay exSim [bar 0 10 12 9 11, bar 3600000 11 13 10 12]
            = Inr \<lparr> totalCandles = length [bar 0 10 12 9 11, bar 3600000 11 13 10 12],
                     bsignals = [], btrades = [],
                     tradingStats = getTradingStats exact exSim, bdailyResults = dailyResults exSim \<rparr>"
    by blast
  moreover have "exDay (openTime (bar 0 10 12 9 11)) = 0"
    and "exDay (openTime (bar 3600000 11 13 10 12)) = 0"
    by (simp_all add: exDay_def bar_def)
  ultimately show ?thesis
    by (simp add: exSim_def newSimulator_def)
qed

text \<open>
  Claim C9 fails on the code. The statistics \<open>getTradingStats\<close> computes and the
  summary \<open>formatSummary\<close> builds from them have no property \<open>profitFactor\<close>: reading
  it gives \<open>undefined\<close>, whatever the trades were.
\<close>

theorem C9_no_profitFactor:
  "map_of (getTradingStats fl sim) ''profitFactor'' = None
   \<and> map_of (formatSummary fl (getTradingStats fl sim)) ''profitFactor'' = None
   \<and> map fst (formatSummary fl (getTradingStats fl sim))
       = [''totalTrades'', ''winningTrades'', ''losingTrades'', ''winRate'', ''totalReturn'',
          ''totalReturnPercent'', ''finalBalance'', ''avgWin'', ''avgLoss'', ''maxDrawdown'',
          ''maxDrawdownPercent'']"
  by (simp add: getTradingStats_def formatSummary_def Let_def)

end
